theory Spec2Isabelle
  imports Complex_Main "HOL-Library.Sublist" "HOL-Library.Word"
    "HOL-Library.Char_ord" "HOL-Library.List_Lexorder" "HOL-Library.Multiset"
    "HOL-Library.Product_Lexorder"
begin

section \<open>Data model\<close>

text \<open>
  Both scripts (\<^verbatim>\<open>src/app.py\<close> and \<^verbatim>\<open>src/scripts/app.py\<close>) work on one pandas
  DataFrame. A frame is modelled by its list of column names and its list of rows, in
  file order. A row carries one field per column the scripts read. A pandas Timestamp is
  a number of nanoseconds since the epoch, and the missing-date marker NaT is \<open>None\<close>;
  a missing categorical cell (NaN in an object column) is \<open>None\<close> as well. A
  \<^verbatim>\<open>datetime.date\<close>, as the date widget returns it, is a number of days since the epoch.
  The field of a column that the frame does not have is never read by the model.
\<close>

type_synonym timestamp = int
type_synonym date = int

definition ns_per_day :: int where
  "ns_per_day = 86400000000000"

text \<open>\<^verbatim>\<open>pd.to_datetime(d)\<close> of a \<^verbatim>\<open>datetime.date\<close>: midnight of that day.\<close>

definition to_datetime :: "date \<Rightarrow> timestamp" where
  "to_datetime d = d * ns_per_day"

text \<open>The calendar day of a Timestamp, as the date widget shows it.\<close>

definition to_date :: "timestamp \<Rightarrow> date" where
  "to_date t = t div ns_per_day"

text \<open>
  \<^verbatim>\<open>Series.min()\<close> and \<^verbatim>\<open>Series.max()\<close> of a datetime column, given its values
  that are not NaT: the result is NaT when there is none.
\<close>

fun series_min :: "timestamp list \<Rightarrow> timestamp option" where
  "series_min [] = None"
| "series_min (t # ts) = Some (fold min ts t)"

fun series_max :: "timestamp list \<Rightarrow> timestamp option" where
  "series_max [] = None"
| "series_max (t # ts) = Some (fold max ts t)"

text \<open>
  A float64 value: a finite number (\<open>Fin 0\<close> is the positive zero), the negative zero,
  the two infinities, or NaN. Only NaN is a missing value for pandas (\<^verbatim>\<open>isna\<close>). Which
  reals are float64 values, and how a result is rounded to one, is not modelled: where
  the scripts compute with float64 the operation of the hardware or of the library is a
  parameter.
\<close>

datatype f64 = Fin real | NegZero | PosInf | NegInf | NaN


text \<open>
  The sales, profit and discount columns are numeric: \<^verbatim>\<open>read_csv\<close> gives such a column
  the dtype int64 when every cell is an integer, float64 when every cell is a number or
  empty (an empty cell is NaN), and object when some cell is another text. A cell of an
  int64 column is \<open>I\<close> of a 64-bit word, read as a signed number, and a cell of a float64
  column is \<open>F\<close> of a float64 value. The cells of an object column are Python objects,
  which the model does not read. A column of booleans, or of integers that do not fit
  64 bits, gets yet another dtype; such columns are left out of the model.
\<close>

datatype num = I "64 word" | F f64

datatype dtype = Int64 | Float64 | Object

record row =
  order_date :: "timestamp option"
  ship_date :: "timestamp option"
  region :: "string option"
  category :: "string option"
  sub_category :: "string option"
  product_name :: "string option"
  sales :: num
  profit :: num
  discount :: num
  profit_margin :: f64

text \<open>
  Besides the column names and the rows, a frame keeps the dtype of each column
  (\<^verbatim>\<open>df.dtypes\<close>); the model needs those of the sales and of the profit column. Taking
  rows out of a frame does not change them.
\<close>

record dataframe =
  columns :: "string list"
  sales_dtype :: dtype
  profit_dtype :: dtype
  rows :: "row list"

datatype parser_error = EmptyDataError | ParserError

datatype error =
  KeyError string | TypeError | FileNotFoundError | UnicodeDecodeError | Parser parser_error

definition has_column :: "dataframe \<Rightarrow> string \<Rightarrow> bool" where
  "has_column df c = (c \<in> set (columns df))"

section \<open>Sidebar filters\<close>

text \<open>
  \<^verbatim>\<open>Series.isin(values)\<close> on one cell: a missing cell is in no list of selected values
  (the lists come from \<^verbatim>\<open>dropna().unique()\<close>, so they hold no missing value).
\<close>

definition isin :: "string option \<Rightarrow> string list \<Rightarrow> bool" where
  "isin v vs = (case v of None \<Rightarrow> False | Some s \<Rightarrow> s \<in> set vs)"

text \<open>\<^verbatim>\<open>df[col].dropna().unique().tolist()\<close>: the values present, in order of first appearance.\<close>

definition dropna_unique :: "string option list \<Rightarrow> string list" where
  "dropna_unique vs = rev (remdups (rev (List.map_filter id vs)))"

text \<open>
  \<^verbatim>\<open>st.sidebar.multiselect(label, options, default=options)\<close>: the widget returns the
  options the user has picked, so its value is always drawn from \<open>options\<close>. The user's
  picks are the argument \<open>picked\<close>; picking everything is the default.
\<close>

definition multiselect :: "string list \<Rightarrow> string list \<Rightarrow> string list" where
  "multiselect options picked = filter (\<lambda>x. x \<in> set options) picked"

subsection \<open>src/scripts/app.py\<close>

definition regions :: "dataframe \<Rightarrow> string list" where
  "regions df =
     (if has_column df ''Region'' then dropna_unique (map region (rows df)) else [])"

definition categories :: "dataframe \<Rightarrow> string list" where
  "categories df =
     (if has_column df ''Category'' then dropna_unique (map category (rows df)) else [])"

definition sub_categories :: "dataframe \<Rightarrow> string list" where
  "sub_categories df =
     (if has_column df ''Sub-Category'' then dropna_unique (map sub_category (rows df)) else [])"

text \<open>
  The user's input: the picks in the three multiselect widgets and the value of the date
  widget. \<^verbatim>\<open>st.sidebar.date_input\<close> with a list as its value is a range input; it returns
  the dates chosen so far (none, the start alone, or start and end), and the script
  tests \<^verbatim>\<open>len(date_range) == 2\<close> for that reason.
\<close>

record filter_input =
  picked_region :: "string list"
  picked_category :: "string list"
  picked_sub_category :: "string list"
  date_range :: "date list"

text \<open>
  Lines 49 to 51: the value the date widget starts with, the days of the earliest and of
  the latest order date. There is no widget on a frame without the column, and what the
  widget does when handed NaT (a frame without a single parsed order date) is not
  modelled: both are \<open>None\<close>.
\<close>

definition default_date_range :: "dataframe \<Rightarrow> date list option" where
  "default_date_range df =
     (if has_column df ''Order Date'' then
        (let ts = List.map_filter order_date (rows df)
         in case (series_min ts, series_max ts) of
              (Some min_date, Some max_date) \<Rightarrow> Some [to_date min_date, to_date max_date]
            | _ \<Rightarrow> None)
      else None)"

definition selected_region :: "dataframe \<Rightarrow> filter_input \<Rightarrow> string list" where
  "selected_region df inp = multiselect (regions df) (picked_region inp)"

definition selected_category :: "dataframe \<Rightarrow> filter_input \<Rightarrow> string list" where
  "selected_category df inp = multiselect (categories df) (picked_category inp)"

definition selected_sub_category :: "dataframe \<Rightarrow> filter_input \<Rightarrow> string list" where
  "selected_sub_category df inp = multiselect (sub_categories df) (picked_sub_category inp)"

text \<open>Boolean-mask indexing \<^verbatim>\<open>df[mask]\<close>: the rows whose mask entry is true, in order.\<close>

definition mask_rows :: "(row \<Rightarrow> bool) \<Rightarrow> dataframe \<Rightarrow> dataframe" where
  "mask_rows p df = df\<lparr>rows := filter p (rows df)\<rparr>"

text \<open>
  A comparison of NaT with a Timestamp is false, so a row without an order date fails
  both \<^verbatim>\<open>>=\<close> and \<^verbatim>\<open><=\<close>.
\<close>

definition in_date_range :: "date \<Rightarrow> date \<Rightarrow> row \<Rightarrow> bool" where
  "in_date_range start_date end_date r =
     (case order_date r of
        None \<Rightarrow> False
      | Some t \<Rightarrow> to_datetime start_date \<le> t \<and> t \<le> to_datetime end_date)"

definition filter_region :: "string list \<Rightarrow> dataframe \<Rightarrow> dataframe" where
  "filter_region sel df =
     (if has_column df ''Region'' \<and> sel \<noteq> []
      then mask_rows (\<lambda>r. isin (region r) sel) df else df)"

definition filter_category :: "string list \<Rightarrow> dataframe \<Rightarrow> dataframe" where
  "filter_category sel df =
     (if has_column df ''Category'' \<and> sel \<noteq> []
      then mask_rows (\<lambda>r. isin (category r) sel) df else df)"

definition filter_sub_category :: "string list \<Rightarrow> dataframe \<Rightarrow> dataframe" where
  "filter_sub_category sel df =
     (if has_column df ''Sub-Category'' \<and> sel \<noteq> []
      then mask_rows (\<lambda>r. isin (sub_category r) sel) df else df)"

definition filter_date :: "date list \<Rightarrow> dataframe \<Rightarrow> dataframe" where
  "filter_date dr df =
     (if has_column df ''Order Date'' \<and> length dr = 2
      then mask_rows (in_date_range (dr ! 0) (dr ! 1)) df else df)"

text \<open>
  Lines 56 to 70 of \<^verbatim>\<open>src/scripts/app.py\<close>: the four steps in the script's order.
  \<open>categorical_steps\<close> names the first three (lines 58 to 63).
\<close>

definition categorical_steps :: "dataframe \<Rightarrow> filter_input \<Rightarrow> dataframe" where
  "categorical_steps df inp =
     filter_sub_category (selected_sub_category df inp)
       (filter_category (selected_category df inp)
         (filter_region (selected_region df inp) df))"

definition filtered_df_scripts :: "dataframe \<Rightarrow> filter_input \<Rightarrow> dataframe" where
  "filtered_df_scripts df inp = filter_date (date_range inp) (categorical_steps df inp)"

subsection \<open>src/app.py\<close>

text \<open>
  Lines 32 to 38 of \<^verbatim>\<open>src/app.py\<close>. The script indexes \<^verbatim>\<open>df["Region"]\<close> and
  \<^verbatim>\<open>df["Category"]\<close> without a test, which raises KeyError on a frame without the
  column. Its option lists are sorted. Both masks are applied whatever the selections
  hold; there is no date filter and no sub-category filter.
\<close>

definition regions_app :: "dataframe \<Rightarrow> string list" where
  "regions_app df = sort (dropna_unique (map region (rows df)))"

definition categories_app :: "dataframe \<Rightarrow> string list" where
  "categories_app df = sort (dropna_unique (map category (rows df)))"

definition filtered_df_app :: "dataframe \<Rightarrow> string list \<Rightarrow> string list \<Rightarrow> error + dataframe" where
  "filtered_df_app df picked_r picked_c =
     (if \<not> has_column df ''Region'' then Inl (KeyError ''Region'')
      else if \<not> has_column df ''Category'' then Inl (KeyError ''Category'')
      else
        let region_sel = multiselect (regions_app df) picked_r;
            category_sel = multiselect (categories_app df) picked_c
        in Inr (mask_rows (\<lambda>r. isin (region r) region_sel \<and> isin (category r) category_sel) df))"

section \<open>Loading the file\<close>

subsection \<open>Decoding\<close>

text \<open>
  \<^verbatim>\<open>pd.read_csv(path, encoding=...)\<close> decodes the bytes of the file and hands the text to
  the tokenizer. The two encodings the scripts name are modelled in full: Python's strict
  UTF-8 codec (no overlong form, no surrogate, nothing above U+10FFFF) and Latin-1, which
  maps every byte to the code point of the same number and never fails. A text is a list
  of code points.
\<close>

type_synonym byte = "8 word"
type_synonym codepoints = "nat list"

datatype encoding = Utf8 | Latin1

definition is_cont :: "byte \<Rightarrow> bool" where
  "is_cont b = (0x80 \<le> unat b \<and> unat b \<le> 0xBF)"

definition cont_bits :: "byte \<Rightarrow> nat" where
  "cont_bits b = unat b - 0x80"

text \<open>The range of the second byte after a three-byte or four-byte lead.\<close>

definition second_ok :: "nat \<Rightarrow> byte \<Rightarrow> bool" where
  "second_ok lead b =
     (if lead = 0xE0 then 0xA0 \<le> unat b \<and> unat b \<le> 0xBF
      else if lead = 0xED then 0x80 \<le> unat b \<and> unat b \<le> 0x9F
      else if lead = 0xF0 then 0x90 \<le> unat b \<and> unat b \<le> 0xBF
      else if lead = 0xF4 then 0x80 \<le> unat b \<and> unat b \<le> 0x8F
      else is_cont b)"

fun utf8_decode :: "byte list \<Rightarrow> codepoints option" where
  "utf8_decode [] = Some []"
| "utf8_decode (b # bs) =
     (let n = unat b in
      if n < 0x80 then map_option ((#) n) (utf8_decode bs)
      else if 0xC2 \<le> n \<and> n \<le> 0xDF then
        (case bs of
           c1 # bs1 \<Rightarrow>
             if is_cont c1
             then map_option ((#) ((n - 0xC0) * 64 + cont_bits c1)) (utf8_decode bs1)
             else None
         | _ \<Rightarrow> None)
      else if 0xE0 \<le> n \<and> n \<le> 0xEF then
        (case bs of
           c1 # c2 # bs2 \<Rightarrow>
             if second_ok n c1 \<and> is_cont c2
             then map_option
                    ((#) ((n - 0xE0) * 4096 + cont_bits c1 * 64 + cont_bits c2))
                    (utf8_decode bs2)
             else None
         | _ \<Rightarrow> None)
      else if 0xF0 \<le> n \<and> n \<le> 0xF4 then
        (case bs of
           c1 # c2 # c3 # bs3 \<Rightarrow>
             if second_ok n c1 \<and> is_cont c2 \<and> is_cont c3
             then map_option
                    ((#) ((n - 0xF0) * 262144 + cont_bits c1 * 4096
                          + cont_bits c2 * 64 + cont_bits c3))
                    (utf8_decode bs3)
             else None
         | _ \<Rightarrow> None)
      else None)"

definition latin1_decode :: "byte list \<Rightarrow> codepoints" where
  "latin1_decode bs = map unat bs"

definition decode :: "encoding \<Rightarrow> byte list \<Rightarrow> codepoints option" where
  "decode enc bs = (case enc of Utf8 \<Rightarrow> utf8_decode bs | Latin1 \<Rightarrow> Some (latin1_decode bs))"

text \<open>
  \<^verbatim>\<open>pd.read_csv\<close>. The file is \<open>None\<close> when the path does not exist. The tokenizer and
  the type inference of pandas are the parameter \<open>parse\<close>, which receives the decoded
  text; it fails with errors of its own, never with a decoding error.
\<close>

definition read_csv ::
  "(codepoints \<Rightarrow> parser_error + 'a) \<Rightarrow> encoding \<Rightarrow> byte list option \<Rightarrow> error + 'a" where
  "read_csv parse enc file =
     (case file of
        None \<Rightarrow> Inl FileNotFoundError
      | Some bs \<Rightarrow>
          (case decode enc bs of
             None \<Rightarrow> Inl UnicodeDecodeError
           | Some txt \<Rightarrow> (case parse txt of Inl e \<Rightarrow> Inl (Parser e) | Inr df \<Rightarrow> Inr df)))"

subsection \<open>The frame as read, and the derived columns\<close>

text \<open>
  The frame \<^verbatim>\<open>read_csv\<close> returns: the header as it stands in the file and, per row, the
  two date cells as text (a missing cell is \<open>None\<close>), the categorical cells and the
  numeric cells.
\<close>

record raw_row =
  raw_order_date :: "string option"
  raw_ship_date :: "string option"
  raw_region :: "string option"
  raw_category :: "string option"
  raw_sub_category :: "string option"
  raw_product_name :: "string option"
  raw_sales :: num
  raw_profit :: num
  raw_discount :: num

record raw_dataframe =
  raw_columns :: "string list"
  raw_sales_dtype :: dtype
  raw_profit_dtype :: dtype
  raw_rows :: "raw_row list"

text \<open>
  \<^verbatim>\<open>str.strip()\<close> removes the white space of Python at both ends; among the characters
  of a \<open>string\<close> these are tab to carriage return, the four separators 0x1C to 0x1F, the
  space, 0x85 and 0xA0.
\<close>

definition is_space :: "char \<Rightarrow> bool" where
  "is_space c =
     (let n = (of_char c :: nat)
      in (9 \<le> n \<and> n \<le> 13) \<or> (28 \<le> n \<and> n \<le> 32) \<or> n = 133 \<or> n = 160)"

definition strip :: "string \<Rightarrow> string" where
  "strip s = rev (dropWhile is_space (rev (dropWhile is_space s)))"

text \<open>
  \<^verbatim>\<open>pd.to_datetime(series, errors="coerce")\<close> on one cell. The date parser of pandas is
  the parameter \<open>parse_date\<close>; a text it rejects, like a missing cell, becomes NaT.
\<close>

definition to_datetime_coerce :: "(string \<Rightarrow> timestamp option) \<Rightarrow> string option \<Rightarrow> timestamp option" where
  "to_datetime_coerce parse_date cell = (case cell of None \<Rightarrow> None | Some s \<Rightarrow> parse_date s)"

text \<open>
  Division of two numeric columns, \<^verbatim>\<open>df["Profit"] / df["Sales"]\<close>, on one row: the
  true division of numpy, which converts integers to float64 and divides as IEEE 754
  does, without raising. The sign of a result that is a zero or an infinity is negative
  exactly when the signs of the operands differ. The quotient of two finite operands
  that are not zero is what the hardware gives, rounded, possibly an infinity or a zero:
  it is the parameter \<open>fdiv\<close>, applied to the values of the operands.
\<close>

definition is_nan :: "num \<Rightarrow> bool" where
  "is_nan a = (a = F NaN)"

definition is_inf :: "num \<Rightarrow> bool" where
  "is_inf a = (a = F PosInf \<or> a = F NegInf)"

definition is_zero :: "num \<Rightarrow> bool" where
  "is_zero a = (a = I 0 \<or> a = F (Fin 0) \<or> a = F NegZero)"

text \<open>The sign bit of a number that is not NaN.\<close>

fun negative :: "num \<Rightarrow> bool" where
  "negative (I w) = (sint w < 0)"
| "negative (F (Fin x)) = (x < 0)"
| "negative (F NegZero) = True"
| "negative (F NegInf) = True"
| "negative (F PosInf) = False"
| "negative (F NaN) = False"

text \<open>The value of a finite number.\<close>

fun real_value :: "num \<Rightarrow> real" where
  "real_value (I w) = real_of_int (sint w)"
| "real_value (F (Fin x)) = x"
| "real_value (F _) = 0"

definition signed_inf :: "bool \<Rightarrow> f64" where
  "signed_inf neg = (if neg then NegInf else PosInf)"

definition signed_zero :: "bool \<Rightarrow> f64" where
  "signed_zero neg = (if neg then NegZero else Fin 0)"

definition truediv :: "(real \<Rightarrow> real \<Rightarrow> f64) \<Rightarrow> num \<Rightarrow> num \<Rightarrow> f64" where
  "truediv fdiv a b =
     (if is_nan a \<or> is_nan b then NaN
      else if is_inf a then
        (if is_inf b then NaN else signed_inf (negative a \<noteq> negative b))
      else if is_inf b then signed_zero (negative a \<noteq> negative b)
      else if is_zero b then
        (if is_zero a then NaN else signed_inf (negative a \<noteq> negative b))
      else if is_zero a then signed_zero (negative a \<noteq> negative b)
      else fdiv (real_value a) (real_value b))"

text \<open>
  On an object column the division is the one of Python, cell by cell, and raises
  \<^verbatim>\<open>TypeError\<close> at the first cell that is a text; an object column with a row has such
  a cell. Two columns without a row divide to a column without a row.
\<close>

definition division_raises :: "raw_dataframe \<Rightarrow> bool" where
  "division_raises raw =
     ((raw_profit_dtype raw = Object \<or> raw_sales_dtype raw = Object) \<and> raw_rows raw \<noteq> [])"

text \<open>\<^verbatim>\<open>df[name] = ...\<close>: a new column goes to the end, an existing one keeps its place.\<close>

definition assign_column :: "string \<Rightarrow> string list \<Rightarrow> string list" where
  "assign_column name cols = (if name \<in> set cols then cols else cols @ [name])"

text \<open>
  The rest of \<^verbatim>\<open>load_data\<close> in \<^verbatim>\<open>src/scripts/app.py\<close> (lines 22 to 32), row by row.
  A date column that is absent is left alone, and \<^verbatim>\<open>ProfitMargin\<close> is added only when
  both \<^verbatim>\<open>Profit\<close> and \<^verbatim>\<open>Sales\<close> are there.
\<close>

definition load_row ::
  "(real \<Rightarrow> real \<Rightarrow> f64) \<Rightarrow> (string \<Rightarrow> timestamp option) \<Rightarrow> string list \<Rightarrow> raw_row \<Rightarrow> row" where
  "load_row fdiv parse_date cols r =
     \<lparr> order_date =
         (if ''Order Date'' \<in> set cols then to_datetime_coerce parse_date (raw_order_date r)
          else None),
       ship_date =
         (if ''Ship Date'' \<in> set cols then to_datetime_coerce parse_date (raw_ship_date r)
          else None),
       region = raw_region r,
       category = raw_category r,
       sub_category = raw_sub_category r,
       product_name = raw_product_name r,
       sales = raw_sales r,
       profit = raw_profit r,
       discount = raw_discount r,
       profit_margin =
         (if ''Profit'' \<in> set cols \<and> ''Sales'' \<in> set cols
          then truediv fdiv (raw_profit r) (raw_sales r) else NaN) \<rparr>"

definition derive_scripts ::
  "(real \<Rightarrow> real \<Rightarrow> f64) \<Rightarrow> (string \<Rightarrow> timestamp option) \<Rightarrow> raw_dataframe
     \<Rightarrow> error + dataframe" where
  "derive_scripts fdiv parse_date raw =
     (let cols = map strip (raw_columns raw)
      in if ''Profit'' \<in> set cols \<and> ''Sales'' \<in> set cols \<and> division_raises raw
         then Inl TypeError
         else Inr \<lparr> columns =
                      (if ''Profit'' \<in> set cols \<and> ''Sales'' \<in> set cols
                       then assign_column ''ProfitMargin'' cols else cols),
                    sales_dtype = raw_sales_dtype raw,
                    profit_dtype = raw_profit_dtype raw,
                    rows = map (load_row fdiv parse_date cols) (raw_rows raw) \<rparr>)"

text \<open>
  \<^verbatim>\<open>load_data\<close> of \<^verbatim>\<open>src/scripts/app.py\<close>: UTF-8 first, and Latin-1 when that raised
  \<^verbatim>\<open>UnicodeDecodeError\<close>. Any other error leaves the function.
\<close>

definition load_data_scripts ::
  "(codepoints \<Rightarrow> parser_error + raw_dataframe) \<Rightarrow> (real \<Rightarrow> real \<Rightarrow> f64)
     \<Rightarrow> (string \<Rightarrow> timestamp option) \<Rightarrow> byte list option \<Rightarrow> error + dataframe" where
  "load_data_scripts parse fdiv parse_date file =
     (case (case read_csv parse Utf8 file of
              Inl UnicodeDecodeError \<Rightarrow> read_csv parse Latin1 file
            | res \<Rightarrow> res) of
        Inl e \<Rightarrow> Inl e
      | Inr raw \<Rightarrow> derive_scripts fdiv parse_date raw)"

text \<open>
  \<^verbatim>\<open>load_data\<close> of \<^verbatim>\<open>src/app.py\<close> (lines 19 to 24): Latin-1 only, and the four
  columns are indexed without a test, so a missing one raises KeyError.
\<close>

definition derive_app ::
  "(real \<Rightarrow> real \<Rightarrow> f64) \<Rightarrow> (string \<Rightarrow> timestamp option) \<Rightarrow> raw_dataframe
     \<Rightarrow> error + dataframe" where
  "derive_app fdiv parse_date raw =
     (let cols = map strip (raw_columns raw)
      in if ''Order Date'' \<notin> set cols then Inl (KeyError ''Order Date'')
         else if ''Ship Date'' \<notin> set cols then Inl (KeyError ''Ship Date'')
         else if ''Profit'' \<notin> set cols then Inl (KeyError ''Profit'')
         else if ''Sales'' \<notin> set cols then Inl (KeyError ''Sales'')
         else if division_raises raw then Inl TypeError
         else Inr \<lparr> columns = assign_column ''ProfitMargin'' cols,
                    sales_dtype = raw_sales_dtype raw,
                    profit_dtype = raw_profit_dtype raw,
                    rows = map (load_row fdiv parse_date cols) (raw_rows raw) \<rparr>)"

definition load_data_app ::
  "(codepoints \<Rightarrow> parser_error + raw_dataframe) \<Rightarrow> (real \<Rightarrow> real \<Rightarrow> f64)
     \<Rightarrow> (string \<Rightarrow> timestamp option) \<Rightarrow> byte list option \<Rightarrow> error + dataframe" where
  "load_data_app parse fdiv parse_date file =
     (case read_csv parse Latin1 file of
        Inl e \<Rightarrow> Inl e
      | Inr raw \<Rightarrow> derive_app fdiv parse_date raw)"

section \<open>Aggregation\<close>

text \<open>
  The sum of the cells of one group. A group has at least one row, and the cells of a
  column are of one kind. Integers are added in int64, where the sum wraps around. The
  float64 sum of pandas, which skips NaN and rounds, is the parameter \<open>fsum\<close>.
\<close>

fun int64_cells :: "num list \<Rightarrow> 64 word list option" where
  "int64_cells [] = Some []"
| "int64_cells (I w # cells) = map_option ((#) w) (int64_cells cells)"
| "int64_cells (F x # cells) = None"

definition col_sum :: "(num list \<Rightarrow> f64) \<Rightarrow> num list \<Rightarrow> num" where
  "col_sum fsum cells =
     (case int64_cells cells of Some ws \<Rightarrow> I (sum_list ws) | None \<Rightarrow> F (fsum cells))"

text \<open>
  \<^verbatim>\<open>df.groupby(key)[col].sum()\<close>: one group per key value present, rows with a missing
  key dropped, the groups in ascending key order, each with the sum of its rows.
\<close>

definition groupby_sum ::
  "(num list \<Rightarrow> f64) \<Rightarrow> (row \<Rightarrow> 'k::linorder option) \<Rightarrow> (row \<Rightarrow> num) \<Rightarrow> row list
     \<Rightarrow> ('k \<times> num) list" where
  "groupby_sum fsum key col rs =
     map (\<lambda>k. (k, col_sum fsum (map col (filter (\<lambda>r. key r = Some k) rs))))
       (sort (remdups (List.map_filter key rs)))"

text \<open>
  The place of a value in descending order, as a key that a sort puts in ascending
  order: positive infinity first, then the finite values from large to small, the two
  zeros being equal, then negative infinity, and NaN last.
\<close>

fun desc_key :: "num \<Rightarrow> nat \<times> real" where
  "desc_key (I w) = (1, - real_of_int (sint w))"
| "desc_key (F (Fin x)) = (1, - x)"
| "desc_key (F NegZero) = (1, 0)"
| "desc_key (F PosInf) = (0, 0)"
| "desc_key (F NegInf) = (2, 0)"
| "desc_key (F NaN) = (3, 0)"

text \<open>
  \<^verbatim>\<open>Series.nlargest(n)\<close> with its default \<^verbatim>\<open>keep="first"\<close>: the entries in descending
  order of value, equal values in their order of appearance in the series, entries
  without a value last, cut after \<open>n\<close>.
\<close>

definition nlargest :: "nat \<Rightarrow> ('k \<times> num) list \<Rightarrow> ('k \<times> num) list" where
  "nlargest n series = take n (sort_key (\<lambda>g. desc_key (snd g)) series)"

text \<open>
  Line 67 of \<^verbatim>\<open>src/app.py\<close>; the columns are indexed without a test, and
  \<^verbatim>\<open>nlargest\<close> raises \<^verbatim>\<open>TypeError\<close> on a series of dtype object.
\<close>

definition top10 :: "(num list \<Rightarrow> f64) \<Rightarrow> dataframe \<Rightarrow> error + (string \<times> num) list" where
  "top10 fsum fdf =
     (if \<not> has_column fdf ''Product Name'' then Inl (KeyError ''Product Name'')
      else if \<not> has_column fdf ''Sales'' then Inl (KeyError ''Sales'')
      else if sales_dtype fdf = Object then Inl TypeError
      else Inr (nlargest 10 (groupby_sum fsum product_name sales (rows fdf))))"

text \<open>
  Lines 136 and 137 of \<^verbatim>\<open>src/scripts/app.py\<close>: the chart is skipped (\<open>None\<close>) on a
  frame without product names.
\<close>

definition top_products ::
  "(num list \<Rightarrow> f64) \<Rightarrow> dataframe \<Rightarrow> error + (string \<times> num) list option" where
  "top_products fsum fdf =
     (if has_column fdf ''Product Name''
      then (if \<not> has_column fdf ''Sales'' then Inl (KeyError ''Sales'')
            else if sales_dtype fdf = Object then Inl TypeError
            else Inr (Some (nlargest 10 (groupby_sum fsum product_name sales (rows fdf)))))
      else Inr None)"

section \<open>Forecast\<close>

text \<open>
  Lines 82 to 94 of \<^verbatim>\<open>src/app.py\<close>. The daily series has one entry per order date
  present in the filtered rows. The fitting procedure of statsmodels is the parameter
  \<open>fit\<close> (\<open>None\<close> when it raises); its result is the last level and trend of the additive
  model, from which \<^verbatim>\<open>forecast(30)\<close> extrapolates linearly, 1 to 30 steps past the end
  of the series.
\<close>

definition sales_ts :: "(num list \<Rightarrow> f64) \<Rightarrow> row list \<Rightarrow> (timestamp \<times> num) list" where
  "sales_ts fsum rs = groupby_sum fsum order_date sales rs"

record holt_fit =
  level :: real
  trend :: real

definition forecast :: "holt_fit \<Rightarrow> nat \<Rightarrow> real list" where
  "forecast m steps = map (\<lambda>h. level m + real h * trend m) [1..<Suc steps]"

text \<open>\<^verbatim>\<open>pd.date_range(start, periods=n, freq="D")\<close>: \<open>n\<close> timestamps from \<open>start\<close> on, a day apart.\<close>

definition pd_date_range :: "timestamp \<Rightarrow> nat \<Rightarrow> timestamp list" where
  "pd_date_range start periods = map (\<lambda>i. start + int i * ns_per_day) [0..<periods]"

datatype forecast_view =
  Info string
| Chart "(timestamp \<times> num) list" "timestamp list" "real list"
| Raised

text \<open>
  The chart holds the actual series, \<^verbatim>\<open>forecast_dates\<close> and \<^verbatim>\<open>forecast\<close>, the last two
  being the x and y values of the dotted trace.
\<close>

definition forecast_dates :: "(timestamp \<times> num) list \<Rightarrow> timestamp list option" where
  "forecast_dates ts = map_option (\<lambda>t. pd_date_range t 30) (series_max (map fst ts))"

definition forecast_section ::
  "(num list \<Rightarrow> f64) \<Rightarrow> (num list \<Rightarrow> holt_fit option) \<Rightarrow> dataframe \<Rightarrow> forecast_view" where
  "forecast_section fsum fit fdf =
     (let ts = sales_ts fsum (rows fdf)
      in if length ts > 20 then
           (case fit (map snd ts) of
              None \<Rightarrow> Raised
            | Some m \<Rightarrow>
                (case forecast_dates ts of
                   None \<Rightarrow> Raised
                 | Some ds \<Rightarrow> Chart ts ds (forecast m 30)))
         else Info ''Not enough data for forecast.'')"

section \<open>Example data\<close>

text \<open>
  Stand-ins for the float64 operations that are parameters of the model: the exact
  quotient and the exact sum. The examples compute only with numbers on which the
  hardware gives the same.
\<close>

definition exact_fdiv :: "real \<Rightarrow> real \<Rightarrow> f64" where
  "exact_fdiv x y = Fin (x / y)"

definition exact_fsum :: "num list \<Rightarrow> f64" where
  "exact_fsum cells = Fin (sum_list (map real_value (filter (\<lambda>c. \<not> is_nan c) cells)))"

text \<open>
  A small dataset and a few inputs, used to evaluate the definitions: three rows, one of
  them without an order date.
\<close>

definition superstore_columns :: "string list" where
  "superstore_columns =
     [''Order Date'', ''Ship Date'', ''Region'', ''Category'', ''Sub-Category'',
      ''Product Name'', ''Sales'', ''Profit'', ''Discount'', ''ProfitMargin'']"

definition mk_row :: "timestamp option \<Rightarrow> string \<Rightarrow> string \<Rightarrow> string \<Rightarrow> string \<Rightarrow> num \<Rightarrow> num \<Rightarrow> row" where
  "mk_row d reg cat sub pname s p =
     \<lparr> order_date = d, ship_date = d, region = Some reg, category = Some cat,
       sub_category = Some sub, product_name = Some pname, sales = s, profit = p,
       discount = F (Fin 0), profit_margin = truediv exact_fdiv p s \<rparr>"

definition chair_row :: row where
  "chair_row = mk_row (Some (to_datetime 17000)) ''East'' ''Furniture'' ''Chairs'' ''Desk Chair'' (I 100) (I 25)"

definition undated_row :: row where
  "undated_row = mk_row None ''West'' ''Technology'' ''Phones'' ''Phone'' (I 200) (I (- 10))"

definition phone_row :: row where
  "phone_row = mk_row (Some (to_datetime 17010)) ''East'' ''Technology'' ''Phones'' ''Phone'' (I 50) (I 5)"

definition east_tech :: filter_input where
  "east_tech = \<lparr> picked_region = [''East''], picked_category = [''Technology''],
                 picked_sub_category = [''Phones'', ''Chairs''], date_range = [17005, 17020] \<rparr>"

definition no_picks :: filter_input where
  "no_picks = \<lparr> picked_region = [], picked_category = [], picked_sub_category = [],
                date_range = [17000, 17010] \<rparr>"

definition start_only :: filter_input where
  "start_only = \<lparr> picked_region = [''East'', ''West''],
                  picked_category = [''Furniture'', ''Technology''],
                  picked_sub_category = [''Chairs'', ''Phones''], date_range = [17005] \<rparr>"

definition example_df :: dataframe where
  "example_df =
     \<lparr> columns = superstore_columns, sales_dtype = Int64, profit_dtype = Int64,
       rows = [chair_row, undated_row, phone_row] \<rparr>"

definition no_region_df :: dataframe where
  "no_region_df =
     \<lparr> columns = [''Order Date'', ''Sales''], sales_dtype = Int64, profit_dtype = Int64,
       rows = [chair_row] \<rparr>"

text \<open>
  Raw frames as the tokenizer returns them. The header of \<open>margins_raw\<close> carries white
  space around two names. Its columns are float64. Four of its rows have a zero in the
  sales cell: the positive zero with a positive, a zero and a negative profit, and the
  negative zero with a positive profit; the last row is an ordinary one. The date parser
  \<open>one_date\<close> knows a single date.
\<close>

definition mk_raw :: "string option \<Rightarrow> string \<Rightarrow> num \<Rightarrow> num \<Rightarrow> raw_row" where
  "mk_raw d reg s p =
     \<lparr> raw_order_date = d, raw_ship_date = d, raw_region = Some reg,
       raw_category = Some ''Furniture'', raw_sub_category = Some ''Chairs'',
       raw_product_name = Some ''Desk Chair'', raw_sales = s, raw_profit = p,
       raw_discount = F (Fin 0) \<rparr>"

definition margins_raw :: raw_dataframe where
  "margins_raw =
     \<lparr> raw_columns = [''Order Date'', ''Ship Date'', ''Region'', '' Sales'', ''Profit ''],
       raw_sales_dtype = Float64, raw_profit_dtype = Float64,
       raw_rows = [mk_raw (Some ''2016-07-18'') ''East'' (F (Fin 0)) (F (Fin 5)),
                   mk_raw (Some ''n/a'') ''East'' (F (Fin 0)) (F (Fin 0)),
                   mk_raw None ''West'' (F (Fin 0)) (F (Fin (- 3))),
                   mk_raw None ''West'' (F NegZero) (F (Fin 5)),
                   mk_raw (Some ''2016-07-18'') ''West'' (F (Fin 100)) (F (Fin 25))] \<rparr>"

text \<open>The frame that both scripts load from \<open>margins_raw\<close>.\<close>

definition margins_df :: dataframe where
  "margins_df =
     \<lparr> columns = [''Order Date'', ''Ship Date'', ''Region'', ''Sales'', ''Profit'', ''ProfitMargin''],
       sales_dtype = Float64, profit_dtype = Float64,
       rows = [mk_row (Some (to_datetime 17000)) ''East'' ''Furniture'' ''Chairs'' ''Desk Chair''
                 (F (Fin 0)) (F (Fin 5)),
               mk_row None ''East'' ''Furniture'' ''Chairs'' ''Desk Chair'' (F (Fin 0)) (F (Fin 0)),
               mk_row None ''West'' ''Furniture'' ''Chairs'' ''Desk Chair'' (F (Fin 0)) (F (Fin (- 3))),
               mk_row None ''West'' ''Furniture'' ''Chairs'' ''Desk Chair'' (F NegZero) (F (Fin 5)),
               mk_row (Some (to_datetime 17000)) ''West'' ''Furniture'' ''Chairs'' ''Desk Chair''
                 (F (Fin 100)) (F (Fin 25))] \<rparr>"

definition one_date :: "string \<Rightarrow> timestamp option" where
  "one_date s = (if s = ''2016-07-18'' then Some (to_datetime 17000) else None)"

text \<open>
  A stand-in for the tokenizer: it puts every character of the text it is given into the
  region cell of a single row, so that the frame shows which text the decoder produced.
\<close>

definition one_cell_parse :: "codepoints \<Rightarrow> parser_error + raw_dataframe" where
  "one_cell_parse txt =
     Inr \<lparr> raw_columns = [''Order Date'', ''Ship Date'', ''Region'', ''Sales'', ''Profit''],
           raw_sales_dtype = Int64, raw_profit_dtype = Int64,
           raw_rows = [mk_raw None (map char_of txt) (I 1) (I 1)] \<rparr>"

text \<open>The two bytes of a UTF-8 encoded U+00E9, and the single byte of it in Latin-1.\<close>

definition e_acute_utf8 :: "byte list" where
  "e_acute_utf8 = [0xC3, 0xA9]"

definition e_acute_latin1 :: "byte list" where
  "e_acute_latin1 = [0xE9]"

text \<open>
  Rows for the aggregations. \<open>product_rows\<close> has four products, three of which tie at
  a total of 5. \<open>tied_rows\<close> has eleven products with sales 1 each, in descending order
  of their names. \<open>daily_rows n\<close> has one row on each of \<open>n\<close> consecutive days from day
  17000 on, each with sales 1. The fitted model \<open>flat_fit\<close> stands in for the fitting
  procedure.
\<close>

definition product_rows :: "row list" where
  "product_rows =
     [mk_row None ''West'' ''Furniture'' ''Chairs'' ''Couch'' (I 5) (I 2),
      mk_row None ''East'' ''Furniture'' ''Chairs'' ''Bench'' (I 5) (I 1),
      mk_row None ''East'' ''Furniture'' ''Chairs'' ''Armchair'' (I 3) (I 1),
      mk_row None ''West'' ''Furniture'' ''Tables'' ''Desk'' (I 1) (I 0),
      mk_row None ''West'' ''Furniture'' ''Chairs'' ''Armchair'' (I 2) (I 1)]"

definition product_df :: dataframe where
  "product_df =
     \<lparr> columns = superstore_columns, sales_dtype = Int64, profit_dtype = Int64,
       rows = product_rows \<rparr>"

definition tied_rows :: "row list" where
  "tied_rows =
     map (\<lambda>name. mk_row None ''East'' ''Furniture'' ''Chairs'' name (I 1) (I 1))
       [''K'', ''J'', ''I'', ''H'', ''G'', ''F'', ''E'', ''D'', ''C'', ''B'', ''A'']"

definition tied_df :: dataframe where
  "tied_df =
     \<lparr> columns = superstore_columns, sales_dtype = Int64, profit_dtype = Int64,
       rows = tied_rows \<rparr>"

text \<open>The frame read from a file that has a header and no row: its columns are object.\<close>

definition header_only_df :: dataframe where
  "header_only_df =
     \<lparr> columns = superstore_columns, sales_dtype = Object, profit_dtype = Object, rows = [] \<rparr>"

definition daily_rows :: "nat \<Rightarrow> row list" where
  "daily_rows n =
     map (\<lambda>i. mk_row (Some (to_datetime (17000 + int i))) ''East'' ''Furniture'' ''Chairs''
                ''Bench'' (I 1) (I 0))
       [0..<n]"

definition daily_df :: "nat \<Rightarrow> dataframe" where
  "daily_df n =
     \<lparr> columns = superstore_columns, sales_dtype = Int64, profit_dtype = Int64,
       rows = daily_rows n \<rparr>"

definition flat_fit :: "num list \<Rightarrow> holt_fit option" where
  "flat_fit ys = Some \<lparr> level = 1, trend = 0 \<rparr>"

text \<open>
  A row of the example dataset moved to three o'clock in the afternoon of day 17010.
\<close>

definition late_row :: row where
  "late_row =
     mk_row (Some (to_datetime 17010 + 15 * 3600000000000)) ''East'' ''Technology'' ''Phones''
       ''Phone'' (I 50) (I 5)"

definition late_df :: dataframe where
  "late_df =
     \<lparr> columns = superstore_columns, sales_dtype = Int64, profit_dtype = Int64,
       rows = [chair_row, undated_row, late_row] \<rparr>"

section \<open>The filter engine\<close>

subsection \<open>Each step is a filter on the rows\<close>

lemma columns_mask_rows: "columns (mask_rows p df) = columns df"
  by (simp add: mask_rows_def)

lemma rows_mask_rows: "rows (mask_rows p df) = filter p (rows df)"
  by (simp add: mask_rows_def)

lemma has_column_mask_rows: "has_column (mask_rows p df) c = has_column df c"
  by (simp add: has_column_def columns_mask_rows)

lemma has_column_filter_region: "has_column (filter_region sel df) c = has_column df c"
  by (simp add: filter_region_def has_column_mask_rows)

lemma has_column_filter_category: "has_column (filter_category sel df) c = has_column df c"
  by (simp add: filter_category_def has_column_mask_rows)

lemma has_column_filter_sub_category: "has_column (filter_sub_category sel df) c = has_column df c"
  by (simp add: filter_sub_category_def has_column_mask_rows)

lemma has_column_filter_date: "has_column (filter_date dr df) c = has_column df c"
  by (simp add: filter_date_def has_column_mask_rows)

lemma rows_filter_region:
  "rows (filter_region sel df) =
     filter (\<lambda>r. has_column df ''Region'' \<and> sel \<noteq> [] \<longrightarrow> isin (region r) sel) (rows df)"
  unfolding filter_region_def
  by (cases "has_column df ''Region''"; cases "sel = []"; simp add: rows_mask_rows)

lemma rows_filter_category:
  "rows (filter_category sel df) =
     filter (\<lambda>r. has_column df ''Category'' \<and> sel \<noteq> [] \<longrightarrow> isin (category r) sel) (rows df)"
  unfolding filter_category_def
  by (cases "has_column df ''Category''"; cases "sel = []"; simp add: rows_mask_rows)

lemma rows_filter_sub_category:
  "rows (filter_sub_category sel df) =
     filter (\<lambda>r. has_column df ''Sub-Category'' \<and> sel \<noteq> [] \<longrightarrow> isin (sub_category r) sel) (rows df)"
  unfolding filter_sub_category_def
  by (cases "has_column df ''Sub-Category''"; cases "sel = []"; simp add: rows_mask_rows)

lemma rows_filter_date:
  "rows (filter_date dr df) =
     filter (\<lambda>r. has_column df ''Order Date'' \<and> length dr = 2 \<longrightarrow> in_date_range (dr ! 0) (dr ! 1) r)
       (rows df)"
  unfolding filter_date_def
  by (cases "has_column df ''Order Date''"; cases "length dr = 2"; simp add: rows_mask_rows)

lemma filtered_df_scripts_steps:
  "filtered_df_scripts df inp = filter_date (date_range inp) (categorical_steps df inp)"
  by (simp add: filtered_df_scripts_def)

lemma has_column_categorical_steps: "has_column (categorical_steps df inp) c = has_column df c"
  by (simp add: categorical_steps_def has_column_filter_sub_category has_column_filter_category
      has_column_filter_region)

lemma multiselect_Nil: "multiselect [] picked = []"
  by (simp add: multiselect_def)

lemma selected_region_column: "selected_region df inp \<noteq> [] \<Longrightarrow> has_column df ''Region''"
  by (auto simp: selected_region_def regions_def multiselect_Nil split: if_splits)

lemma selected_category_column: "selected_category df inp \<noteq> [] \<Longrightarrow> has_column df ''Category''"
  by (auto simp: selected_category_def categories_def multiselect_Nil split: if_splits)

lemma selected_sub_category_column:
  "selected_sub_category df inp \<noteq> [] \<Longrightarrow> has_column df ''Sub-Category''"
  by (auto simp: selected_sub_category_def sub_categories_def multiselect_Nil split: if_splits)

lemma rows_categorical_steps:
  "rows (categorical_steps df inp) =
     filter (\<lambda>r. (selected_region df inp \<noteq> [] \<longrightarrow> isin (region r) (selected_region df inp)) \<and>
                 (selected_category df inp \<noteq> [] \<longrightarrow> isin (category r) (selected_category df inp)) \<and>
                 (selected_sub_category df inp \<noteq> [] \<longrightarrow>
                    isin (sub_category r) (selected_sub_category df inp)))
       (rows df)"
proof -
  have r: "(has_column df ''Region'' \<and> selected_region df inp \<noteq> []) = (selected_region df inp \<noteq> [])"
    using selected_region_column by blast
  have c: "(has_column df ''Category'' \<and> selected_category df inp \<noteq> []) = (selected_category df inp \<noteq> [])"
    using selected_category_column by blast
  have s: "(has_column df ''Sub-Category'' \<and> selected_sub_category df inp \<noteq> [])
             = (selected_sub_category df inp \<noteq> [])"
    using selected_sub_category_column by blast
  show ?thesis
    unfolding categorical_steps_def rows_filter_sub_category rows_filter_category rows_filter_region
      has_column_filter_category has_column_filter_region r c s filter_filter
    by (rule filter_cong) auto
qed

lemma rows_filtered_df_scripts:
  "rows (filtered_df_scripts df inp) =
     filter (\<lambda>r. has_column df ''Order Date'' \<and> length (date_range inp) = 2 \<longrightarrow>
                  in_date_range (date_range inp ! 0) (date_range inp ! 1) r)
       (rows (categorical_steps df inp))"
  by (simp add: filtered_df_scripts_steps rows_filter_date has_column_categorical_steps)



lemma rows_filtered_df_app:
  assumes "filtered_df_app df pr pc = Inr fa"
  shows "rows fa = filter (\<lambda>r. isin (region r) (multiselect (regions_app df) pr) \<and>
                              isin (category r) (multiselect (categories_app df) pc)) (rows df)"
  using assms by (auto simp: filtered_df_app_def rows_mask_rows Let_def split: if_splits)

lemma filter_region_Nil: "filter_region [] df = df"
  by (simp add: filter_region_def)

lemma filter_category_Nil: "filter_category [] df = df"
  by (simp add: filter_category_def)

lemma filter_sub_category_Nil: "filter_sub_category [] df = df"
  by (simp add: filter_sub_category_def)

lemma isin_Nil: "\<not> isin v []"
  by (simp add: isin_def split: option.splits)

lemma to_datetime_le: "to_datetime a \<le> to_datetime b \<longleftrightarrow> a \<le> b"
  by (simp add: to_datetime_def ns_per_day_def)

lemma in_date_range_iff:
  "in_date_range s e r \<longleftrightarrow>
     (\<exists>t. order_date r = Some t \<and> to_datetime s \<le> t \<and> t \<le> to_datetime e)"
  by (simp add: in_date_range_def split: option.splits)

subsection \<open>The example, evaluated\<close>

lemma example_has_column:
  "has_column example_df ''Region''" "has_column example_df ''Category''"
  "has_column example_df ''Sub-Category''" "has_column example_df ''Order Date''"
  by (simp_all add: has_column_def example_df_def superstore_columns_def)

lemma example_rows: "rows example_df = [chair_row, undated_row, phone_row]"
  by (simp add: example_df_def)

lemmas example_row_defs = chair_row_def undated_row_def phone_row_def mk_row_def

lemma example_options:
  "regions example_df = [''East'', ''West'']"
  "categories example_df = [''Furniture'', ''Technology'']"
  "sub_categories example_df = [''Chairs'', ''Phones'']"
  by (simp_all add: regions_def categories_def sub_categories_def example_has_column example_rows
      dropna_unique_def List.map_filter_def example_row_defs)

lemma example_options_app:
  "regions_app example_df = [''East'', ''West'']"
  "categories_app example_df = [''Furniture'', ''Technology'']"
  by (simp_all add: regions_app_def categories_app_def example_rows
      dropna_unique_def List.map_filter_def example_row_defs)




lemma no_picks_selected:
  "selected_region example_df no_picks = []"
  "selected_category example_df no_picks = []"
  "selected_sub_category example_df no_picks = []"
  "date_range no_picks = [17000, 17010]"
  by (simp_all add: selected_region_def selected_category_def selected_sub_category_def
      multiselect_def no_picks_def)

lemma no_picks_filtered: "rows (filtered_df_scripts example_df no_picks) = [chair_row, phone_row]"
  by (simp add: rows_filtered_df_scripts rows_categorical_steps no_picks_selected example_rows
      example_has_column in_date_range_def to_datetime_def ns_per_day_def example_row_defs)

lemma date_only_filtered: "rows (filter_date [17000, 17010] example_df) = [chair_row, phone_row]"
  by (simp add: rows_filter_date example_rows example_has_column in_date_range_def
      to_datetime_def ns_per_day_def example_row_defs)

lemma no_region_filtered_app:
  "filtered_df_app example_df [] [''Furniture'', ''Technology'']
     = Inr (example_df\<lparr>rows := []\<rparr>)"
  by (simp add: filtered_df_app_def mask_rows_def example_options_app multiselect_def
      example_has_column example_rows isin_def example_row_defs)

lemma no_picks_categorical:
  "rows (categorical_steps example_df no_picks) = [chair_row, undated_row, phone_row]"
  by (simp add: rows_categorical_steps no_picks_selected example_rows)

subsection \<open>The filtered view is sound\<close>





subsection \<open>Empty selections\<close>

text \<open>
  Claim C2 as stated fails for \<^verbatim>\<open>src/app.py\<close>: with nothing selected in the region
  widget, and every category selected, no row of the example is retained, although each
  row passes the category constraint.
\<close>

theorem empty_selection_app_counterexample:
  "multiselect (regions_app example_df) [] = [] \<and>
   filter (\<lambda>r. isin (category r) (multiselect (categories_app example_df) [''Furniture'', ''Technology'']))
     (rows example_df) = rows example_df \<and>
   rows example_df \<noteq> [] \<and>
   filtered_df_app example_df [] [''Furniture'', ''Technology''] = Inr (example_df\<lparr>rows := []\<rparr>)"
  by (simp add: no_region_filtered_app example_options_app multiselect_def example_rows isin_def
      example_row_defs)

text \<open>
  Claim C2, amended. In \<^verbatim>\<open>src/scripts/app.py\<close> a dimension whose selection is empty
  imposes no constraint: the filtered view is the result of the remaining steps alone;
  and the selection of a dimension whose column is absent is empty. In \<^verbatim>\<open>src/app.py\<close>
  an empty region or category selection retains no row.
\<close>

theorem empty_selection:
  "(selected_region df inp = [] \<longrightarrow>
      filtered_df_scripts df inp =
        filter_date (date_range inp)
          (filter_sub_category (selected_sub_category df inp)
            (filter_category (selected_category df inp) df))) \<and>
   (selected_category df inp = [] \<longrightarrow>
      filtered_df_scripts df inp =
        filter_date (date_range inp)
          (filter_sub_category (selected_sub_category df inp)
            (filter_region (selected_region df inp) df))) \<and>
   (selected_sub_category df inp = [] \<longrightarrow>
      filtered_df_scripts df inp =
        filter_date (date_range inp)
          (filter_category (selected_category df inp)
            (filter_region (selected_region df inp) df))) \<and>
   (\<not> has_column df ''Region'' \<longrightarrow> selected_region df inp = []) \<and>
   (\<not> has_column df ''Category'' \<longrightarrow> selected_category df inp = []) \<and>
   (\<not> has_column df ''Sub-Category'' \<longrightarrow> selected_sub_category df inp = []) \<and>
   (\<forall>fa. filtered_df_app df picked_r picked_c = Inr fa \<and>
         (multiselect (regions_app df) picked_r = [] \<or>
          multiselect (categories_app df) picked_c = []) \<longrightarrow>
         rows fa = [])"
proof (intro conjI impI allI)
  assume "selected_region df inp = []"
  then show "filtered_df_scripts df inp =
        filter_date (date_range inp)
          (filter_sub_category (selected_sub_category df inp)
            (filter_category (selected_category df inp) df))"
    by (simp add: filtered_df_scripts_def categorical_steps_def filter_region_Nil)
next
  assume "selected_category df inp = []"
  then show "filtered_df_scripts df inp =
        filter_date (date_range inp)
          (filter_sub_category (selected_sub_category df inp)
            (filter_region (selected_region df inp) df))"
    by (simp add: filtered_df_scripts_def categorical_steps_def filter_category_Nil)
next
  assume "selected_sub_category df inp = []"
  then show "filtered_df_scripts df inp =
        filter_date (date_range inp)
          (filter_category (selected_category df inp)
            (filter_region (selected_region df inp) df))"
    by (simp add: filtered_df_scripts_def categorical_steps_def filter_sub_category_Nil)
next
  assume "\<not> has_column df ''Region''"
  then show "selected_region df inp = []" using selected_region_column by blast
next
  assume "\<not> has_column df ''Category''"
  then show "selected_category df inp = []" using selected_category_column by blast
next
  assume "\<not> has_column df ''Sub-Category''"
  then show "selected_sub_category df inp = []" using selected_sub_category_column by blast
next
  fix fa
  assume a: "filtered_df_app df picked_r picked_c = Inr fa \<and>
         (multiselect (regions_app df) picked_r = [] \<or>
          multiselect (categories_app df) picked_c = [])"
  then have "rows fa = filter (\<lambda>r. isin (region r) (multiselect (regions_app df) picked_r) \<and>
                              isin (category r) (multiselect (categories_app df) picked_c)) (rows df)"
    by (simp add: rows_filtered_df_app)
  with a show "rows fa = []"
    by (auto simp: isin_Nil)
qed

theorem empty_selection_witness:
  "selected_region example_df no_picks = [] \<and>
   selected_category example_df no_picks = [] \<and>
   selected_sub_category example_df no_picks = [] \<and>
   filtered_df_scripts example_df no_picks = filter_date [17000, 17010] example_df \<and>
   rows (filtered_df_scripts example_df no_picks) = [chair_row, phone_row] \<and>
   \<not> has_column no_region_df ''Region'' \<and> \<not> has_column no_region_df ''Category'' \<and>
   \<not> has_column no_region_df ''Sub-Category'' \<and>
   selected_region no_region_df east_tech = [] \<and>
   selected_category no_region_df east_tech = [] \<and>
   selected_sub_category no_region_df east_tech = [] \<and>
   multiselect (regions_app example_df) [] = [] \<and>
   filtered_df_app example_df [] [''Furniture'', ''Technology''] = Inr (example_df\<lparr>rows := []\<rparr>) \<and>
   rows (example_df\<lparr>rows := []\<rparr>) = []"
proof -
  have absent: "\<not> has_column no_region_df ''Region''" "\<not> has_column no_region_df ''Category''"
    "\<not> has_column no_region_df ''Sub-Category''"
    by (simp_all add: has_column_def no_region_df_def)
  have sel: "selected_region no_region_df east_tech = []"
    "selected_category no_region_df east_tech = []"
    "selected_sub_category no_region_df east_tech = []"
    using empty_selection [of no_region_df east_tech "[]" "[]"] absent by blast+
  show ?thesis
    using empty_selection [of example_df no_picks "[]" "[''Furniture'', ''Technology'']"] sel absent
    by (simp add: no_picks_selected date_only_filtered no_region_filtered_app
        filter_sub_category_Nil filter_category_Nil filter_region_Nil multiselect_def)
qed

subsection \<open>The date interval\<close>

lemma day_ge:
  fixes s t n :: int
  assumes "0 < n"
  shows "s * n \<le> t \<longleftrightarrow> s \<le> t div n"
proof
  assume "s * n \<le> t"
  then have "(s * n) div n \<le> t div n"
    using assms by (intro zdiv_mono1) auto
  then show "s \<le> t div n"
    using assms by simp
next
  assume "s \<le> t div n"
  then have "s * n \<le> (t div n) * n"
    using assms by (simp add: mult_right_mono)
  also have "\<dots> = t - t mod n"
    by (simp add: minus_mod_eq_div_mult)
  also have "\<dots> \<le> t"
    using assms by simp
  finally show "s * n \<le> t" .
qed

lemma day_le:
  fixes e t n :: int
  assumes "0 < n"
  shows "t \<le> e * n \<longleftrightarrow> t div n < e \<or> t = e * n"
  using day_ge [OF assms, of e t] by auto

lemma ns_day_ge: "s * 86400000000000 \<le> (t::int) \<longleftrightarrow> s \<le> t div 86400000000000"
  by (rule day_ge) simp

lemma ns_day_le:
  "(t::int) \<le> e * 86400000000000 \<longleftrightarrow> t div 86400000000000 < e \<or> t = e * 86400000000000"
  by (rule day_le) simp

lemma in_date_range_ns:
  "in_date_range s e r \<longleftrightarrow>
     (\<exists>t. order_date r = Some t \<and> s * 86400000000000 \<le> t \<and> t \<le> e * 86400000000000)"
  by (simp add: in_date_range_def to_datetime_def ns_per_day_def split: option.splits)

text \<open>
  Claim C5 as stated fails. \<^verbatim>\<open>src/scripts/app.py\<close> compares the order date, a timestamp,
  with \<^verbatim>\<open>pd.to_datetime(end_date)\<close>, the midnight at which the end day begins. In the frame
  \<open>late_df\<close> the third row is dated at 15:00 on day 17010. The widget holds the interval
  from day 17000 to day 17010, which is also its default value for this frame. The
  order date of that row lies on the end day of the interval, yet the row is not
  retained: the view holds the first row only.
\<close>

theorem end_day_afternoon_counterexample:
  "has_column late_df ''Order Date'' \<and>
   default_date_range late_df = Some [17000, 17010] \<and>
   date_range no_picks = [17000, 17010] \<and>
   rows (categorical_steps late_df no_picks) = [chair_row, undated_row, late_row] \<and>
   order_date late_row = Some (17010 * 86400000000000 + 15 * 3600000000000) \<and>
   (17010 * 86400000000000 + 15 * 3600000000000) div 86400000000000 = (17010 :: int) \<and>
   rows (filtered_df_scripts late_df no_picks) = [chair_row]"
  by code_simp

text \<open>
  Claim C5, amended. When the date filter of \<^verbatim>\<open>src/scripts/app.py\<close> is active, with the
  interval from \<open>start_date\<close> to \<open>end_date\<close>, the filtered view consists of exactly the rows
  left by the categorical steps whose order date is present and lies between the
  midnight that begins \<open>start_date\<close> and the midnight that begins \<open>end_date\<close>, both
  included, a timestamp counting nanoseconds and a day lasting 86400000000000 of them.
  No retained row has a missing order date. In terms of calendar days: a row with an
  order date is retained exactly when its day is \<open>start_date\<close> or later and either its
  day is before \<open>end_date\<close> or it is dated at the very midnight that begins \<open>end_date\<close>.
  The start day is included whole, the end day only by its first instant.
\<close>

theorem date_interval_exact:
  assumes "has_column df ''Order Date''" and "date_range inp = [start_date, end_date]"
  shows "rows (filtered_df_scripts df inp) =
           filter (\<lambda>r. \<exists>t. order_date r = Some t \<and> start_date * 86400000000000 \<le> t \<and>
                            t \<le> end_date * 86400000000000)
             (rows (categorical_steps df inp)) \<and>
         (\<forall>r \<in> set (rows (filtered_df_scripts df inp)). order_date r \<noteq> None) \<and>
         (\<forall>r \<in> set (rows (categorical_steps df inp)). \<forall>t.
            order_date r = Some t \<longrightarrow>
              (r \<in> set (rows (filtered_df_scripts df inp)) \<longleftrightarrow>
                 start_date \<le> t div 86400000000000 \<and>
                 (t div 86400000000000 < end_date \<or> t = end_date * 86400000000000)))"
proof -
  have eq: "rows (filtered_df_scripts df inp) =
      filter (in_date_range start_date end_date) (rows (categorical_steps df inp))"
    using assms by (simp add: rows_filtered_df_scripts)
  have exact: "rows (filtered_df_scripts df inp) =
           filter (\<lambda>r. \<exists>t. order_date r = Some t \<and> start_date * 86400000000000 \<le> t \<and>
                            t \<le> end_date * 86400000000000)
             (rows (categorical_steps df inp))"
    unfolding eq by (rule filter_cong) (simp_all add: in_date_range_ns)
  have dated: "\<forall>r \<in> set (rows (filtered_df_scripts df inp)). order_date r \<noteq> None"
    unfolding exact by auto
  have days: "\<forall>r \<in> set (rows (categorical_steps df inp)). \<forall>t.
            order_date r = Some t \<longrightarrow>
              (r \<in> set (rows (filtered_df_scripts df inp)) \<longleftrightarrow>
                 start_date \<le> t div 86400000000000 \<and>
                 (t div 86400000000000 < end_date \<or> t = end_date * 86400000000000))"
    unfolding exact using ns_day_ge ns_day_le by auto
  from exact dated days show ?thesis by blast
qed

theorem date_interval_exact_witness:
  "has_column example_df ''Order Date'' \<and> date_range no_picks = [17000, 17010] \<and>
   rows (categorical_steps example_df no_picks) = [chair_row, undated_row, phone_row] \<and>
   order_date chair_row = Some (17000 * 86400000000000) \<and>
   order_date undated_row = None \<and>
   order_date phone_row = Some (17010 * 86400000000000) \<and>
   rows (filtered_df_scripts example_df no_picks) = [chair_row, phone_row]"
  using date_interval_exact [of example_df no_picks 17000 17010]
  by (simp add: example_has_column no_picks_selected no_picks_categorical no_picks_filtered
      example_row_defs to_datetime_def ns_per_day_def)

section \<open>The loader\<close>

subsection \<open>Decoding\<close>

lemma read_csv_Some:
  "read_csv parse enc (Some bs) =
     (case decode enc bs of
        None \<Rightarrow> Inl UnicodeDecodeError
      | Some txt \<Rightarrow> (case parse txt of Inl e \<Rightarrow> Inl (Parser e) | Inr df \<Rightarrow> Inr df))"
  by (simp add: read_csv_def)

lemma read_csv_latin1:
  "read_csv parse Latin1 (Some bs) =
     (case parse (latin1_decode bs) of Inl e \<Rightarrow> Inl (Parser e) | Inr df \<Rightarrow> Inr df)"
  by (simp add: read_csv_Some decode_def)

lemma read_csv_utf8_ok:
  "utf8_decode bs = Some txt \<Longrightarrow>
     read_csv parse Utf8 (Some bs) =
       (case parse txt of Inl e \<Rightarrow> Inl (Parser e) | Inr df \<Rightarrow> Inr df)"
  by (simp add: read_csv_Some decode_def)

lemma read_csv_utf8_fail:
  "utf8_decode bs = None \<Longrightarrow> read_csv parse Utf8 (Some bs) = Inl UnicodeDecodeError"
  by (simp add: read_csv_Some decode_def)

lemma e_acute_decoded:
  "utf8_decode e_acute_utf8 = Some [0xE9]"
  "utf8_decode e_acute_latin1 = None"
  "latin1_decode e_acute_utf8 = [0xC3, 0xA9]"
  "latin1_decode e_acute_latin1 = [0xE9]"
  by (simp_all add: e_acute_utf8_def e_acute_latin1_def latin1_decode_def is_cont_def
      cont_bits_def second_ok_def)

lemma e_acute_chars:
  "char_of (0xE9 :: nat) = CHR 0xE9" "char_of (0xC3 :: nat) = CHR 0xC3"
  "char_of (0xA9 :: nat) = CHR 0xA9"
  by (simp_all add: char_of_def bit_0)

lemma one_cell_columns:
  "map strip [''Order Date'', ''Ship Date'', ''Region'', ''Sales'', ''Profit'']
     = [''Order Date'', ''Ship Date'', ''Region'', ''Sales'', ''Profit'']"
  by (simp add: strip_def is_space_def)

lemma one_cell_scripts:
  "map_sum id (\<lambda>df. map region (rows df))
     (case one_cell_parse txt of
        Inl e \<Rightarrow> Inl (Parser e)
      | Inr raw \<Rightarrow> derive_scripts fdiv parse_date raw)
   = Inr [Some (map char_of txt)]"
  by (simp add: one_cell_parse_def derive_scripts_def division_raises_def strip_def is_space_def
      Let_def load_row_def mk_raw_def)

lemma one_cell_app:
  "map_sum id (\<lambda>df. map region (rows df))
     (case one_cell_parse txt of
        Inl e \<Rightarrow> Inl (Parser e)
      | Inr raw \<Rightarrow> derive_app fdiv parse_date raw)
   = Inr [Some (map char_of txt)]"
  by (simp add: one_cell_parse_def derive_app_def division_raises_def strip_def is_space_def
      Let_def load_row_def mk_raw_def)

text \<open>
  Claim C8 as stated fails for \<^verbatim>\<open>src/app.py\<close>: the two bytes C3 A9 are valid UTF-8
  for the single character U+00E9, and \<^verbatim>\<open>src/scripts/app.py\<close> reads them so, but
  \<^verbatim>\<open>src/app.py\<close> reads them as the two Latin-1 characters U+00C3 and U+00A9.
\<close>

theorem utf8_first_app_counterexample:
  "utf8_decode e_acute_utf8 = Some [0xE9] \<and>
   map_sum id (\<lambda>df. map region (rows df))
     (load_data_scripts one_cell_parse exact_fdiv one_date (Some e_acute_utf8))
     = Inr [Some [CHR 0xE9]] \<and>
   map_sum id (\<lambda>df. map region (rows df))
     (load_data_app one_cell_parse exact_fdiv one_date (Some e_acute_utf8))
     = Inr [Some [CHR 0xC3, CHR 0xA9]]"
proof -
  have scripts: "load_data_scripts one_cell_parse exact_fdiv one_date (Some e_acute_utf8) =
      (case one_cell_parse [0xE9] of
         Inl e \<Rightarrow> Inl (Parser e)
       | Inr raw \<Rightarrow> derive_scripts exact_fdiv one_date raw)"
    by (simp add: load_data_scripts_def read_csv_utf8_ok [OF e_acute_decoded(1)] split: sum.splits)
  have app: "load_data_app one_cell_parse exact_fdiv one_date (Some e_acute_utf8) =
      (case one_cell_parse [0xC3, 0xA9] of
         Inl e \<Rightarrow> Inl (Parser e)
       | Inr raw \<Rightarrow> derive_app exact_fdiv one_date raw)"
    by (simp add: load_data_app_def read_csv_latin1 e_acute_decoded split: sum.splits)
  show ?thesis
    unfolding scripts app one_cell_scripts one_cell_app
    by (simp add: e_acute_decoded e_acute_chars)
qed

text \<open>
  Claim C8, amended. \<^verbatim>\<open>load_data\<close> of \<^verbatim>\<open>src/scripts/app.py\<close> decodes the file as UTF-8
  first: a file that is valid UTF-8 is read from its UTF-8 text, and only a file that is
  not is read again as Latin-1. \<^verbatim>\<open>load_data\<close> of \<^verbatim>\<open>src/app.py\<close> makes no UTF-8
  attempt; it reads every file as Latin-1.
\<close>

theorem utf8_first:
  "(utf8_decode bs = Some txt \<longrightarrow>
      load_data_scripts parse fdiv parse_date (Some bs) =
        (case parse txt of
           Inl e \<Rightarrow> Inl (Parser e)
         | Inr raw \<Rightarrow> derive_scripts fdiv parse_date raw)) \<and>
   (utf8_decode bs = None \<longrightarrow>
      load_data_scripts parse fdiv parse_date (Some bs) =
        (case parse (latin1_decode bs) of
           Inl e \<Rightarrow> Inl (Parser e)
         | Inr raw \<Rightarrow> derive_scripts fdiv parse_date raw)) \<and>
   load_data_app parse fdiv parse_date (Some bs) =
     (case parse (latin1_decode bs) of
        Inl e \<Rightarrow> Inl (Parser e)
      | Inr raw \<Rightarrow> derive_app fdiv parse_date raw)"
proof (intro conjI impI)
  assume "utf8_decode bs = Some txt"
  then show "load_data_scripts parse fdiv parse_date (Some bs) =
        (case parse txt of
           Inl e \<Rightarrow> Inl (Parser e)
         | Inr raw \<Rightarrow> derive_scripts fdiv parse_date raw)"
    by (simp add: load_data_scripts_def read_csv_utf8_ok split: sum.splits)
next
  assume "utf8_decode bs = None"
  then show "load_data_scripts parse fdiv parse_date (Some bs) =
        (case parse (latin1_decode bs) of
           Inl e \<Rightarrow> Inl (Parser e)
         | Inr raw \<Rightarrow> derive_scripts fdiv parse_date raw)"
    by (simp add: load_data_scripts_def read_csv_utf8_fail read_csv_latin1 split: sum.splits)
next
  show "load_data_app parse fdiv parse_date (Some bs) =
     (case parse (latin1_decode bs) of
        Inl e \<Rightarrow> Inl (Parser e)
      | Inr raw \<Rightarrow> derive_app fdiv parse_date raw)"
    by (simp add: load_data_app_def read_csv_latin1 split: sum.splits)
qed

theorem utf8_first_witness:
  "utf8_decode e_acute_utf8 = Some [0xE9] \<and>
   map_sum id (\<lambda>df. map region (rows df))
     (load_data_scripts one_cell_parse exact_fdiv one_date (Some e_acute_utf8)) = Inr [Some [CHR 0xE9]] \<and>
   utf8_decode e_acute_latin1 = None \<and>
   map_sum id (\<lambda>df. map region (rows df))
     (load_data_scripts one_cell_parse exact_fdiv one_date (Some e_acute_latin1)) = Inr [Some [CHR 0xE9]]"
proof -
  have valid: "load_data_scripts one_cell_parse exact_fdiv one_date (Some e_acute_utf8) =
      (case one_cell_parse [0xE9] of
         Inl e \<Rightarrow> Inl (Parser e)
       | Inr raw \<Rightarrow> derive_scripts exact_fdiv one_date raw)"
    using utf8_first [of e_acute_utf8 "[0xE9]" one_cell_parse exact_fdiv one_date]
    by (simp add: e_acute_decoded)
  have invalid: "load_data_scripts one_cell_parse exact_fdiv one_date (Some e_acute_latin1) =
      (case one_cell_parse [0xE9] of
         Inl e \<Rightarrow> Inl (Parser e)
       | Inr raw \<Rightarrow> derive_scripts exact_fdiv one_date raw)"
    using utf8_first [of e_acute_latin1 "[]" one_cell_parse exact_fdiv one_date]
    by (simp add: e_acute_decoded)
  show ?thesis
    unfolding valid invalid one_cell_scripts
    by (simp add: e_acute_decoded e_acute_chars)
qed

subsection \<open>The derived columns\<close>


lemma derive_scripts_Inr:
  assumes "derive_scripts fdiv parse_date raw = Inr df"
  shows "columns df =
           (if ''Profit'' \<in> set (map strip (raw_columns raw)) \<and>
               ''Sales'' \<in> set (map strip (raw_columns raw))
            then assign_column ''ProfitMargin'' (map strip (raw_columns raw))
            else map strip (raw_columns raw))"
    and "rows df = map (load_row fdiv parse_date (map strip (raw_columns raw))) (raw_rows raw)"
  using assms by (auto simp: derive_scripts_def Let_def split: if_splits)




lemma load_row_order_date:
  "''Order Date'' \<in> set cols \<Longrightarrow>
     order_date (load_row fdiv parse_date cols r) =
       to_datetime_coerce parse_date (raw_order_date r)"
  by (simp add: load_row_def)






lemma derive_numeric:
  assumes "raw_profit_dtype raw \<noteq> Object" and "raw_sales_dtype raw \<noteq> Object"
  shows "\<exists>df. derive_scripts fdiv parse_date raw = Inr df"
    and "derive_app fdiv parse_date raw \<noteq> Inl TypeError"
  using assms by (simp_all add: derive_scripts_def derive_app_def division_raises_def Let_def)






lemma margins_values:
  "map profit_margin (rows margins_df) = [PosInf, NaN, NegInf, NegInf, Fin (1 / 4)]"
  by code_simp

lemma margins_raw_dtypes:
  "raw_sales_dtype margins_raw = Float64" "raw_profit_dtype margins_raw = Float64"
  by (simp_all add: margins_raw_def)




subsection \<open>Rows without an order date\<close>

lemma start_only_filtered:
  "rows (filtered_df_scripts example_df start_only) = [chair_row, undated_row, phone_row]"
  by (simp add: rows_filtered_df_scripts rows_categorical_steps selected_region_def
      selected_category_def selected_sub_category_def example_options multiselect_def
      start_only_def example_rows isin_def example_row_defs)

lemma example_default_date_range: "default_date_range example_df = Some [17000, 17010]"
  by (simp add: default_date_range_def example_has_column example_rows List.map_filter_def
      example_row_defs to_date_def to_datetime_def ns_per_day_def)

lemma default_date_range_length:
  "default_date_range df = Some dr \<Longrightarrow> has_column df ''Order Date'' \<and> length dr = 2"
  by (auto simp: default_date_range_def Let_def split: if_splits option.splits)

lemma margins_derived: "derive_scripts exact_fdiv one_date margins_raw = Inr margins_df"
  by code_simp

lemma margins_order_date_column: "''Order Date'' \<in> set (map strip (raw_columns margins_raw))"
  by code_simp

lemma margins_order_dates:
  "map (\<lambda>r. to_datetime_coerce one_date (raw_order_date r)) (raw_rows margins_raw)
     = [Some (to_datetime 17000), None, None, None, Some (to_datetime 17000)]"
  by (simp add: margins_raw_def mk_raw_def to_datetime_coerce_def one_date_def)

lemma margins_length: "length (raw_rows margins_raw) = 5"
  by (simp add: margins_raw_def)

text \<open>
  Claim C10 as stated fails: while the user has chosen only the first date of the range,
  the date widget holds one date, the date step is skipped, and the row of the example
  without an order date is in the filtered view.
\<close>

theorem date_filter_inactive_counterexample:
  "has_column example_df ''Order Date'' \<and> date_range start_only = [17005] \<and>
   order_date undated_row = None \<and>
   rows (filtered_df_scripts example_df start_only) = [chair_row, undated_row, phone_row]"
  by (simp add: example_has_column start_only_filtered) (simp add: start_only_def example_row_defs)

text \<open>
  Claim C10, amended. In \<^verbatim>\<open>src/scripts/app.py\<close>, whenever the order date column is
  present and the date widget holds two dates, as its default value does, no row with a
  missing order date is in the filtered view; when the widget holds another number of
  dates the date step is skipped. The Loader keeps every row, and gives a row the
  missing-date marker when its date cell is empty or does not parse.
\<close>

theorem undated_rows_excluded:
  "(has_column df ''Order Date'' \<and> length (date_range inp) = 2 \<longrightarrow>
      (\<forall>r \<in> set (rows (filtered_df_scripts df inp)). order_date r \<noteq> None)) \<and>
   (default_date_range df = Some dr \<longrightarrow> has_column df ''Order Date'' \<and> length dr = 2) \<and>
   (length (date_range inp) \<noteq> 2 \<longrightarrow> filtered_df_scripts df inp = categorical_steps df inp) \<and>
   (raw_profit_dtype raw \<noteq> Object \<and> raw_sales_dtype raw \<noteq> Object \<longrightarrow>
      (\<exists>frame. derive_scripts fdiv parse_date raw = Inr frame)) \<and>
   (derive_scripts fdiv parse_date raw = Inr loaded \<longrightarrow>
      length (rows loaded) = length (raw_rows raw) \<and>
      (''Order Date'' \<in> set (map strip (raw_columns raw)) \<longrightarrow>
         map order_date (rows loaded) =
           map (\<lambda>r. to_datetime_coerce parse_date (raw_order_date r)) (raw_rows raw)))"
proof (intro conjI impI ballI)
  fix r
  assume "has_column df ''Order Date'' \<and> length (date_range inp) = 2"
    and "r \<in> set (rows (filtered_df_scripts df inp))"
  then have "in_date_range (date_range inp ! 0) (date_range inp ! 1) r"
    by (simp add: rows_filtered_df_scripts)
  then show "order_date r \<noteq> None"
    by (auto simp: in_date_range_iff)
next
  assume "default_date_range df = Some dr"
  then show "has_column df ''Order Date''" and "length dr = 2"
    using default_date_range_length by blast+
next
  assume "length (date_range inp) \<noteq> 2"
  then show "filtered_df_scripts df inp = categorical_steps df inp"
    by (simp add: filtered_df_scripts_def filter_date_def)
next
  assume "raw_profit_dtype raw \<noteq> Object \<and> raw_sales_dtype raw \<noteq> Object"
  then show "\<exists>frame. derive_scripts fdiv parse_date raw = Inr frame"
    using derive_numeric(1) by blast
next
  assume "derive_scripts fdiv parse_date raw = Inr loaded"
  then show "length (rows loaded) = length (raw_rows raw)"
    by (simp add: derive_scripts_Inr(2))
next
  assume "derive_scripts fdiv parse_date raw = Inr loaded"
    and "''Order Date'' \<in> set (map strip (raw_columns raw))"
  then show "map order_date (rows loaded) =
        map (\<lambda>r. to_datetime_coerce parse_date (raw_order_date r)) (raw_rows raw)"
    by (simp add: derive_scripts_Inr(2) load_row_order_date)
qed

theorem undated_rows_excluded_witness:
  "has_column example_df ''Order Date'' \<and> length (date_range no_picks) = 2 \<and>
   default_date_range example_df = Some (date_range no_picks) \<and>
   rows (filtered_df_scripts example_df no_picks) = [chair_row, phone_row] \<and>
   order_date chair_row \<noteq> None \<and> order_date phone_row \<noteq> None \<and>
   length (date_range start_only) \<noteq> 2 \<and>
   filtered_df_scripts example_df start_only = categorical_steps example_df start_only \<and>
   raw_profit_dtype margins_raw \<noteq> Object \<and> raw_sales_dtype margins_raw \<noteq> Object \<and>
   derive_scripts exact_fdiv one_date margins_raw = Inr margins_df \<and>
   ''Order Date'' \<in> set (map strip (raw_columns margins_raw)) \<and>
   length (rows margins_df) = 5 \<and>
   map order_date (rows margins_df)
     = [Some (to_datetime 17000), None, None, None, Some (to_datetime 17000)]"
proof -
  note active = undated_rows_excluded
    [of example_df no_picks "date_range no_picks" margins_raw exact_fdiv one_date margins_df]
  note inactive = undated_rows_excluded
    [of example_df start_only "date_range no_picks" margins_raw exact_fdiv one_date margins_df]
  have len: "length (date_range start_only) \<noteq> 2"
    by (simp add: start_only_def)
  have skipped: "filtered_df_scripts example_df start_only = categorical_steps example_df start_only"
    using inactive len by blast
  have dates: "map order_date (rows margins_df)
      = [Some (to_datetime 17000), None, None, None, Some (to_datetime 17000)]"
    using active margins_derived margins_order_date_column by (simp add: margins_order_dates)
  have n: "length (rows margins_df) = 5"
    using active margins_derived by (simp add: margins_length)
  have dated: "order_date chair_row \<noteq> None" "order_date phone_row \<noteq> None"
    using active by (simp_all add: example_has_column no_picks_selected no_picks_filtered)
  show ?thesis
    using len skipped dates n dated margins_order_date_column
    by (simp add: example_has_column no_picks_selected no_picks_filtered
        example_default_date_range margins_derived margins_raw_dtypes)
qed

section \<open>The top products\<close>

subsection \<open>Grouping\<close>

lemma set_map_filter: "set (List.map_filter f xs) = {y. \<exists>x \<in> set xs. f x = Some y}"
  by (induction xs) (auto simp: map_filter_simps split: option.splits)

lemma keys_groupby_sum:
  "map fst (groupby_sum fsum key col rs) = sort (remdups (List.map_filter key rs))"
  by (simp add: groupby_sum_def comp_def)

lemma sorted_keys_groupby_sum: "sorted_wrt (<) (map fst (groupby_sum fsum key col rs))"
  unfolding keys_groupby_sum by (simp add: strict_sorted_iff)

lemma set_keys_groupby_sum:
  "set (map fst (groupby_sum fsum key col rs)) = {k. \<exists>r \<in> set rs. key r = Some k}"
  unfolding keys_groupby_sum by (simp add: set_map_filter)


lemma value_groupby_sum:
  "g \<in> set (groupby_sum fsum key col rs) \<Longrightarrow>
     snd g = col_sum fsum (map col (filter (\<lambda>r. key r = Some (fst g)) rs))"
  by (auto simp: groupby_sum_def)

lemma sorted_groups: "sorted_wrt (\<lambda>a b. fst a < fst b) (groupby_sum fsum key col rs)"
  using sorted_keys_groupby_sum [of fsum key col rs] by (simp add: sorted_wrt_map)

lemma int64_cells_ints: "int64_cells (map I ws) = Some ws"
  by (induction ws) simp_all

lemma int64_cells_float: "F x \<in> set cells \<Longrightarrow> int64_cells cells = None"
proof (induction cells)
  case Nil
  then show ?case by simp
next
  case (Cons c cells)
  then show ?case by (cases c) auto
qed

lemma sum_list_word: "sum_list ws = (word_of_int (sum_list (map sint ws)) :: 64 word)"
  by (induction ws) simp_all

lemma col_sum_ints: "col_sum fsum (map I ws) = I (word_of_int (sum_list (map sint ws)))"
  using sum_list_word [of ws] by (simp add: col_sum_def int64_cells_ints)

lemma col_sum_float: "F x \<in> set cells \<Longrightarrow> col_sum fsum cells = F (fsum cells)"
  by (simp add: col_sum_def int64_cells_float)

subsection \<open>The largest entries\<close>

lemma length_nlargest: "length (nlargest n series) = min n (length series)"
  by (simp add: nlargest_def min.commute)

lemma mset_nlargest_subset: "mset (nlargest n series) \<subseteq># mset series"
proof -
  have "mset (take n (sort_key (\<lambda>g. desc_key (snd g)) series)) +
        mset (drop n (sort_key (\<lambda>g. desc_key (snd g)) series))
      = mset (sort_key (\<lambda>g. desc_key (snd g)) series)"
    by (metis append_take_drop_id mset_append)
  then have "mset (nlargest n series) + mset (drop n (sort_key (\<lambda>g. desc_key (snd g)) series))
      = mset series"
    by (simp add: nlargest_def)
  then show ?thesis
    by (metis mset_subset_eq_add_left)
qed

lemma nlargest_all:
  "length series \<le> n \<Longrightarrow> mset (nlargest n series) = mset series"
  by (simp add: nlargest_def)

text \<open>
  A stable sort of a list that is in order for \<open>Q\<close> puts it in the order that compares
  the keys first and falls back on \<open>Q\<close> for equal keys.
\<close>

lemma insort_key_lex:
  fixes f :: "'a \<Rightarrow> 'b::linorder"
  assumes "sorted_wrt (\<lambda>a b. f a < f b \<or> (f a = f b \<and> Q a b)) ys"
    and "\<forall>y \<in> set ys. Q x y"
  shows "sorted_wrt (\<lambda>a b. f a < f b \<or> (f a = f b \<and> Q a b)) (insort_key f x ys)"
  using assms
proof (induction ys)
  case Nil
  then show ?case by simp
next
  case (Cons y ys)
  show ?case
  proof (cases "f x \<le> f y")
    case True
    have "f x < f z \<or> (f x = f z \<and> Q x z)" if "z \<in> set (y # ys)" for z
    proof -
      have "f y \<le> f z"
        using that Cons.prems(1) by auto
      with True have "f x \<le> f z" by simp
      moreover have "Q x z" using that Cons.prems(2) by auto
      ultimately show ?thesis by auto
    qed
    with True Cons.prems(1) show ?thesis by simp
  next
    case False
    then have "f y < f x" by simp
    moreover have "sorted_wrt (\<lambda>a b. f a < f b \<or> (f a = f b \<and> Q a b)) (insort_key f x ys)"
      using Cons by simp
    ultimately show ?thesis
      using False Cons.prems(1) by (auto simp: set_insort_key)
  qed
qed

lemma sort_key_lex:
  fixes f :: "'a \<Rightarrow> 'b::linorder"
  assumes "sorted_wrt Q xs"
  shows "sorted_wrt (\<lambda>a b. f a < f b \<or> (f a = f b \<and> Q a b)) (sort_key f xs)"
  using assms
proof (induction xs)
  case Nil
  then show ?case by simp
next
  case (Cons x xs)
  then have "sorted_wrt (\<lambda>a b. f a < f b \<or> (f a = f b \<and> Q a b)) (sort_key f xs)"
    and "\<forall>y \<in> set (sort_key f xs). Q x y"
    by simp_all
  then show ?case
    using insort_key_lex [of f Q "sort_key f xs" x] by simp
qed

lemma ranked_sort_groups:
  "sorted_wrt (\<lambda>a b. desc_key (snd a) < desc_key (snd b) \<or>
                  (desc_key (snd a) = desc_key (snd b) \<and> fst a < fst b))
     (sort_key (\<lambda>g. desc_key (snd g)) (groupby_sum fsum key col rs))"
  by (rule sort_key_lex [OF sorted_groups])

lemma ranked_nlargest:
  "sorted_wrt (\<lambda>a b. desc_key (snd a) < desc_key (snd b) \<or>
                  (desc_key (snd a) = desc_key (snd b) \<and> fst a < fst b))
     (nlargest n (groupby_sum fsum key col rs))"
proof -
  let ?s = "sort_key (\<lambda>g. desc_key (snd g)) (groupby_sum fsum key col rs)"
  have "sorted_wrt (\<lambda>a b. desc_key (snd a) < desc_key (snd b) \<or>
                  (desc_key (snd a) = desc_key (snd b) \<and> fst a < fst b))
          (take n ?s @ drop n ?s)"
    using ranked_sort_groups [of fsum key col rs] by simp
  then show ?thesis
    unfolding nlargest_def sorted_wrt_append by blast
qed

lemma nlargest_dominates:
  assumes "a \<in> set (nlargest n (groupby_sum fsum key col rs))"
    and "b \<in> set (groupby_sum fsum key col rs) - set (nlargest n (groupby_sum fsum key col rs))"
  shows "desc_key (snd a) < desc_key (snd b) \<or>
         (desc_key (snd a) = desc_key (snd b) \<and> fst a < fst b)"
proof -
  let ?s = "sort_key (\<lambda>g. desc_key (snd g)) (groupby_sum fsum key col rs)"
  have "set (take n ?s) \<union> set (drop n ?s) = set (groupby_sum fsum key col rs)"
    by (metis append_take_drop_id set_append set_sort)
  with assms(2) have b: "b \<in> set (drop n ?s)"
    by (auto simp: nlargest_def)
  have "sorted_wrt (\<lambda>a b. desc_key (snd a) < desc_key (snd b) \<or>
                  (desc_key (snd a) = desc_key (snd b) \<and> fst a < fst b))
          (take n ?s @ drop n ?s)"
    using ranked_sort_groups [of fsum key col rs] by simp
  with assms(1) b show ?thesis
    unfolding nlargest_def sorted_wrt_append by blast
qed

lemma desc_key_order:
  "desc_key (I a) < desc_key (I b) \<longleftrightarrow> sint b < sint a"
  "desc_key (F (Fin x)) < desc_key (F (Fin y)) \<longleftrightarrow> y < x"
  "desc_key (I a) = desc_key (I b) \<longleftrightarrow> a = b"
  "desc_key (F (Fin x)) = desc_key (F (Fin y)) \<longleftrightarrow> x = y"
  "desc_key (F NegZero) = desc_key (F (Fin 0))"
  "desc_key (F PosInf) < desc_key (F (Fin x))"
  "desc_key (F (Fin x)) < desc_key (F NegInf)"
  "desc_key (F NegInf) < desc_key (F NaN)"
  by (simp_all add: word_eq_iff_signed [where ?'a = int] del: of_int_sint)

subsection \<open>The examples, evaluated\<close>

lemma product_groups:
  "groupby_sum exact_fsum product_name sales (rows product_df)
     = [(''Armchair'', I 5), (''Bench'', I 5), (''Couch'', I 5), (''Desk'', I 1)]"
  by code_simp

lemma product_top:
  "nlargest 10 [(''Armchair'', I 5), (''Bench'', I 5), (''Couch'', I 5), (''Desk'', I 1)]
     = [(''Armchair'', I 5), (''Bench'', I 5), (''Couch'', I 5), (''Desk'', I 1)]"
  "nlargest 2 [(''Armchair'', I 5), (''Bench'', I 5), (''Couch'', I 5), (''Desk'', I 1)]
     = [(''Armchair'', I 5), (''Bench'', I 5)]"
  by code_simp+

lemma product_has_column:
  "has_column product_df ''Product Name''" "has_column product_df ''Sales''"
  "sales_dtype product_df \<noteq> Object"
  by (simp_all add: has_column_def product_df_def superstore_columns_def)

lemma header_only_has_column:
  "has_column header_only_df ''Product Name''" "has_column header_only_df ''Sales''"
  "sales_dtype header_only_df = Object"
  by (simp_all add: has_column_def header_only_df_def superstore_columns_def)

lemma product_order:
  "map product_name product_rows =
     [Some ''Couch'', Some ''Bench'', Some ''Armchair'', Some ''Desk'', Some ''Armchair'']"
  "map sales product_rows = [I 5, I 5, I 3, I 1, I 2]"
  by (simp_all add: product_rows_def mk_row_def)

subsection \<open>The top ten\<close>

text \<open>
  Claim C7 as stated fails at both call sites. The rows of \<open>tied_df\<close> name eleven
  products, \<open>K\<close> first and \<open>A\<close> last, each with sales 1, so all eleven groups tie.
  Breaking the tie by input order would return the products of the first ten rows,
  \<open>K\<close> to \<open>B\<close>. The scripts return \<open>A\<close> to \<open>J\<close>, in ascending order of name, and leave
  out \<open>K\<close>, the product of the first row: grouping has put the groups in ascending
  order of product name before the largest are taken. Nor is there a result for every
  view: on the frame of a file that has a header and no row the sales column is of
  dtype object, and taking the largest raises \<^verbatim>\<open>TypeError\<close>.
\<close>

theorem tie_input_order_counterexample:
  "map product_name (rows tied_df) =
     map Some [''K'', ''J'', ''I'', ''H'', ''G'', ''F'', ''E'', ''D'', ''C'', ''B'', ''A''] \<and>
   map sales (rows tied_df) = replicate 11 (I 1) \<and>
   top10 exact_fsum tied_df =
     Inr [(''A'', I 1), (''B'', I 1), (''C'', I 1), (''D'', I 1), (''E'', I 1), (''F'', I 1),
          (''G'', I 1), (''H'', I 1), (''I'', I 1), (''J'', I 1)] \<and>
   top_products exact_fsum tied_df =
     Inr (Some [(''A'', I 1), (''B'', I 1), (''C'', I 1), (''D'', I 1), (''E'', I 1),
                (''F'', I 1), (''G'', I 1), (''H'', I 1), (''I'', I 1), (''J'', I 1)]) \<and>
   rows header_only_df = [] \<and>
   top10 exact_fsum header_only_df = Inl TypeError \<and>
   top_products exact_fsum header_only_df = Inl TypeError"
  by code_simp

text \<open>
  Claim C7, amended. At both call sites the top-N aggregation is \<open>nlargest 10\<close> of the
  sales summed per product; it raises \<^verbatim>\<open>TypeError\<close> when the sales column is of dtype
  object. There is one group for every product name that a row of the view carries,
  the groups are in ascending order of product name, and the value of a group is the
  sum of the sales cells of its rows: for an int64 column the sum of the integers
  wrapped around to 64 bits, for a float64 column the float64 sum of the library. For
  every \<open>n\<close> the result of \<open>nlargest n\<close> has \<open>n\<close> of the groups, or all of them when there
  are at most \<open>n\<close>. The result is ordered by descending sum and, among groups with equal
  sums, by ascending product name, not by the order of the rows; and every group in the
  result comes before every group left out in that same order. In the descending order
  of sums positive infinity is first, the finite sums follow from large to small with
  the two zeros equal, then negative infinity, and NaN is last.
\<close>

theorem top_n_largest:
  "let groups = groupby_sum fsum product_name sales (rows fdf);
       top = nlargest n groups;
       before = (\<lambda>a b. desc_key (snd a) < desc_key (snd b) \<or>
                        (desc_key (snd a) = desc_key (snd b) \<and> fst a < fst b))
   in (has_column fdf ''Product Name'' \<and> has_column fdf ''Sales'' \<and> sales_dtype fdf \<noteq> Object \<longrightarrow>
         top10 fsum fdf = Inr (nlargest 10 groups) \<and>
         top_products fsum fdf = Inr (Some (nlargest 10 groups))) \<and>
      (has_column fdf ''Product Name'' \<and> has_column fdf ''Sales'' \<and> sales_dtype fdf = Object \<longrightarrow>
         top10 fsum fdf = Inl TypeError \<and> top_products fsum fdf = Inl TypeError) \<and>
      sorted_wrt (<) (map fst groups) \<and>
      set (map fst groups) = {k. \<exists>r \<in> set (rows fdf). product_name r = Some k} \<and>
      (\<forall>g \<in> set groups.
         snd g = col_sum fsum (map sales (filter (\<lambda>r. product_name r = Some (fst g)) (rows fdf)))) \<and>
      col_sum fsum (map I ws) = I (word_of_int (sum_list (map sint ws))) \<and>
      (F x \<in> set cells \<longrightarrow> col_sum fsum cells = F (fsum cells)) \<and>
      length top = min n (length groups) \<and>
      mset top \<subseteq># mset groups \<and>
      sorted_wrt before top \<and>
      (\<forall>a \<in> set top. \<forall>b \<in> set groups - set top. before a b) \<and>
      (length groups \<le> n \<longrightarrow> mset top = mset groups) \<and>
      (desc_key (I v) < desc_key (I w) \<longleftrightarrow> sint w < sint v) \<and>
      (desc_key (I v) = desc_key (I w) \<longleftrightarrow> v = w) \<and>
      (desc_key (F (Fin y)) < desc_key (F (Fin z)) \<longleftrightarrow> z < y) \<and>
      (desc_key (F (Fin y)) = desc_key (F (Fin z)) \<longleftrightarrow> y = z) \<and>
      desc_key (F NegZero) = desc_key (F (Fin 0)) \<and>
      desc_key (F PosInf) < desc_key (F (Fin y)) \<and>
      desc_key (F (Fin y)) < desc_key (F NegInf) \<and>
      desc_key (F NegInf) < desc_key (F NaN)"
  unfolding Let_def
proof (intro conjI impI ballI)
  assume "has_column fdf ''Product Name'' \<and> has_column fdf ''Sales'' \<and> sales_dtype fdf \<noteq> Object"
  then show "top10 fsum fdf = Inr (nlargest 10 (groupby_sum fsum product_name sales (rows fdf)))"
    and "top_products fsum fdf =
           Inr (Some (nlargest 10 (groupby_sum fsum product_name sales (rows fdf))))"
    by (simp_all add: top10_def top_products_def)
next
  assume "has_column fdf ''Product Name'' \<and> has_column fdf ''Sales'' \<and> sales_dtype fdf = Object"
  then show "top10 fsum fdf = Inl TypeError" and "top_products fsum fdf = Inl TypeError"
    by (simp_all add: top10_def top_products_def)
next
  show "sorted_wrt (<) (map fst (groupby_sum fsum product_name sales (rows fdf)))"
    by (rule sorted_keys_groupby_sum)
next
  show "set (map fst (groupby_sum fsum product_name sales (rows fdf))) =
          {k. \<exists>r \<in> set (rows fdf). product_name r = Some k}"
    by (rule set_keys_groupby_sum)
next
  fix g assume "g \<in> set (groupby_sum fsum product_name sales (rows fdf))"
  then show "snd g =
      col_sum fsum (map sales (filter (\<lambda>r. product_name r = Some (fst g)) (rows fdf)))"
    by (rule value_groupby_sum)
next
  show "col_sum fsum (map I ws) = I (word_of_int (sum_list (map sint ws)))"
    by (rule col_sum_ints)
next
  assume "F x \<in> set cells"
  then show "col_sum fsum cells = F (fsum cells)"
    by (rule col_sum_float)
next
  show "length (nlargest n (groupby_sum fsum product_name sales (rows fdf))) =
          min n (length (groupby_sum fsum product_name sales (rows fdf)))"
    by (rule length_nlargest)
next
  show "mset (nlargest n (groupby_sum fsum product_name sales (rows fdf))) \<subseteq>#
          mset (groupby_sum fsum product_name sales (rows fdf))"
    by (rule mset_nlargest_subset)
next
  show "sorted_wrt (\<lambda>a b. desc_key (snd a) < desc_key (snd b) \<or>
                      (desc_key (snd a) = desc_key (snd b) \<and> fst a < fst b))
          (nlargest n (groupby_sum fsum product_name sales (rows fdf)))"
    by (rule ranked_nlargest)
next
  fix a b
  assume "a \<in> set (nlargest n (groupby_sum fsum product_name sales (rows fdf)))"
    and "b \<in> set (groupby_sum fsum product_name sales (rows fdf)) -
               set (nlargest n (groupby_sum fsum product_name sales (rows fdf)))"
  then show "desc_key (snd a) < desc_key (snd b) \<or>
             (desc_key (snd a) = desc_key (snd b) \<and> fst a < fst b)"
    by (rule nlargest_dominates)
next
  assume "length (groupby_sum fsum product_name sales (rows fdf)) \<le> n"
  then show "mset (nlargest n (groupby_sum fsum product_name sales (rows fdf))) =
               mset (groupby_sum fsum product_name sales (rows fdf))"
    by (rule nlargest_all)
qed (rule desc_key_order)+

theorem top_n_largest_witness:
  "has_column product_df ''Product Name'' \<and> has_column product_df ''Sales'' \<and>
   sales_dtype product_df \<noteq> Object \<and>
   map product_name (rows product_df) =
     [Some ''Couch'', Some ''Bench'', Some ''Armchair'', Some ''Desk'', Some ''Armchair''] \<and>
   map sales (rows product_df) = [I 5, I 5, I 3, I 1, I 2] \<and>
   groupby_sum exact_fsum product_name sales (rows product_df)
     = [(''Armchair'', I 5), (''Bench'', I 5), (''Couch'', I 5), (''Desk'', I 1)] \<and>
   top10 exact_fsum product_df
     = Inr [(''Armchair'', I 5), (''Bench'', I 5), (''Couch'', I 5), (''Desk'', I 1)] \<and>
   top_products exact_fsum product_df
     = Inr (Some [(''Armchair'', I 5), (''Bench'', I 5), (''Couch'', I 5), (''Desk'', I 1)]) \<and>
   length (groupby_sum exact_fsum product_name sales (rows product_df)) \<le> 10 \<and>
   mset (nlargest 10 (groupby_sum exact_fsum product_name sales (rows product_df)))
     = mset (groupby_sum exact_fsum product_name sales (rows product_df)) \<and>
   nlargest 2 (groupby_sum exact_fsum product_name sales (rows product_df))
     = [(''Armchair'', I 5), (''Bench'', I 5)] \<and>
   F (Fin 2) \<in> set [F (Fin 1), F (Fin 2)] \<and>
   col_sum exact_fsum [F (Fin 1), F (Fin 2)] = F (exact_fsum [F (Fin 1), F (Fin 2)]) \<and>
   has_column header_only_df ''Product Name'' \<and> has_column header_only_df ''Sales'' \<and>
   sales_dtype header_only_df = Object \<and>
   top10 exact_fsum header_only_df = Inl TypeError \<and>
   top_products exact_fsum header_only_df = Inl TypeError"
proof -
  note numeric = top_n_largest
    [where fdf = product_df and fsum = exact_fsum and n = 10 and x = "Fin 2"
       and cells = "[F (Fin 1), F (Fin 2)]", unfolded Let_def]
  note object = top_n_largest
    [where fdf = header_only_df and fsum = exact_fsum and n = 10 and x = "Fin 2"
       and cells = "[F (Fin 1), F (Fin 2)]", unfolded Let_def]
  have small: "length (groupby_sum exact_fsum product_name sales (rows product_df)) \<le> 10"
    by (simp add: product_groups)
  have charts:
    "top10 exact_fsum product_df =
       Inr (nlargest 10 (groupby_sum exact_fsum product_name sales (rows product_df)))"
    "top_products exact_fsum product_df =
       Inr (Some (nlargest 10 (groupby_sum exact_fsum product_name sales (rows product_df))))"
    using numeric product_has_column by blast+
  have whole: "mset (nlargest 10 (groupby_sum exact_fsum product_name sales (rows product_df)))
      = mset (groupby_sum exact_fsum product_name sales (rows product_df))"
    using numeric small by blast
  have floats: "col_sum exact_fsum [F (Fin 1), F (Fin 2)] = F (exact_fsum [F (Fin 1), F (Fin 2)])"
    using numeric by simp
  have raised: "top10 exact_fsum header_only_df = Inl TypeError"
    "top_products exact_fsum header_only_df = Inl TypeError"
    using object header_only_has_column by blast+
  have cells: "map product_name (rows product_df) =
     [Some ''Couch'', Some ''Bench'', Some ''Armchair'', Some ''Desk'', Some ''Armchair'']"
    "map sales (rows product_df) = [I 5, I 5, I 3, I 1, I 2]"
    by (simp_all add: product_df_def product_order)
  show ?thesis
    using charts whole small floats raised cells
    by (simp add: product_has_column header_only_has_column product_groups product_top)
qed

section \<open>The forecast\<close>


lemma set_dates_sales_ts:
  "set (map fst (sales_ts fsum rs)) = {t. \<exists>r \<in> set rs. order_date r = Some t}"
  unfolding sales_ts_def by (rule set_keys_groupby_sum)

lemma series_max_Max:
  assumes "ts \<noteq> []"
  shows "series_max ts = Some (Max (set ts))"
proof (cases ts)
  case Nil
  with assms show ?thesis by simp
next
  case (Cons t ts')
  then show ?thesis using Max.set_eq_fold [of t ts'] by simp
qed

lemma forecast_dates_Max:
  assumes "ts \<noteq> []"
  shows "forecast_dates ts = Some (pd_date_range (Max (set (map fst ts))) 30)"
  using assms by (simp add: forecast_dates_def series_max_Max)

lemma length_pd_date_range: "length (pd_date_range start periods) = periods"
  by (simp add: pd_date_range_def)

lemma nth_pd_date_range:
  "i < periods \<Longrightarrow> pd_date_range start periods ! i = start + int i * ns_per_day"
  by (simp add: pd_date_range_def)

lemma length_forecast: "length (forecast m steps) = steps"
  by (simp add: forecast_def)

lemma nth_forecast: "i < steps \<Longrightarrow> forecast m steps ! i = level m + real (Suc i) * trend m"
  by (simp add: forecast_def del: upt_Suc)


lemma forecast_section_fit:
  assumes "21 \<le> length (sales_ts fsum (rows fdf))"
  shows "forecast_section fsum fit fdf =
     (case fit (map snd (sales_ts fsum (rows fdf))) of
        None \<Rightarrow> Raised
      | Some m \<Rightarrow>
          Chart (sales_ts fsum (rows fdf))
            (pd_date_range (Max {t. \<exists>r \<in> set (rows fdf). order_date r = Some t}) 30)
            (forecast m 30))"
proof -
  from assms have "sales_ts fsum (rows fdf) \<noteq> []" by auto
  then have "forecast_dates (sales_ts fsum (rows fdf))
      = Some (pd_date_range (Max (set (map fst (sales_ts fsum (rows fdf))))) 30)"
    by (rule forecast_dates_Max)
  then have "forecast_dates (sales_ts fsum (rows fdf))
      = Some (pd_date_range (Max {t. \<exists>r \<in> set (rows fdf). order_date r = Some t}) 30)"
    by (simp only: set_dates_sales_ts)
  with assms show ?thesis
    by (simp add: forecast_section_def Let_def split: option.splits)
qed

lemma daily_lengths:
  "length (sales_ts exact_fsum (rows (daily_df 20))) = 20"
  "length (sales_ts exact_fsum (rows (daily_df 21))) = 21"
  by code_simp+

lemma daily_last:
  "Max (set (map fst (sales_ts exact_fsum (rows (daily_df 21))))) = to_datetime 17020"
  by code_simp



lemma forecast_dates_from_max:
  assumes "ts \<noteq> []"
  shows "forecast_dates ts =
     Some (map (\<lambda>i. Max (set (map fst ts)) + int i * ns_per_day) [0..<30])"
  using forecast_dates_Max [OF assms] by (simp add: pd_date_range_def)

text \<open>
  What the chart holds for every accepted series: 30 dates and 30 values, the dates a
  day apart, the first of them the latest observed order date.
\<close>

lemma forecast_chart_dates:
  assumes "21 \<le> length (sales_ts fsum (rows fdf))"
    and "fit (map snd (sales_ts fsum (rows fdf))) = Some m"
  shows "\<exists>ds vs. forecast_section fsum fit fdf = Chart (sales_ts fsum (rows fdf)) ds vs \<and>
           length ds = 30 \<and> length vs = 30 \<and>
           (\<forall>i < 30. ds ! i =
              Max {t. \<exists>r \<in> set (rows fdf). order_date r = Some t} + int i * ns_per_day)"
  using forecast_section_fit [OF assms(1), of fit] assms(2)
  by (simp add: length_pd_date_range length_forecast nth_pd_date_range)

lemma daily_observed:
  "map fst (sales_ts exact_fsum (rows (daily_df 21))) = map to_datetime [17000..17020]"
  by code_simp

lemma daily_forecast_dates: "pd_date_range (to_datetime 17020) 30 = map to_datetime [17020..17049]"
  by code_simp

text \<open>
  Claim C3 against the code. \<^verbatim>\<open>forecast_dates\<close> is built from the last observed date
  itself, not from the day after it: for a series observed on the 21 days 17000 to 17020
  the 30 forecast values, which are the predictions 1 to 30 steps after the end of the
  series, are paired with the days 17020 to 17049. The dates are 30 and a day apart, as
  the claim says, but they begin a day early.
\<close>

theorem forecast_dates_begin_on_last_day:
  "forecast_section exact_fsum flat_fit (daily_df 21) =
     Chart (sales_ts exact_fsum (rows (daily_df 21))) (map to_datetime [17020..17049])
       (forecast \<lparr> level = 1, trend = 0 \<rparr> 30) \<and>
   map fst (sales_ts exact_fsum (rows (daily_df 21))) = map to_datetime [17000..17020] \<and>
   length (map to_datetime [17020..17049]) = 30 \<and>
   length (forecast \<lparr> level = 1, trend = 0 \<rparr> 30) = 30 \<and>
   hd (map to_datetime [17020..17049]) = to_datetime 17020 \<and>
   to_datetime 17020 \<noteq> to_datetime 17021"
proof -
  have last: "Max {t. \<exists>r \<in> set (rows (daily_df 21)). order_date r = Some t} = to_datetime 17020"
    using daily_last by (simp only: set_dates_sales_ts)
  have "forecast_section exact_fsum flat_fit (daily_df 21) =
     Chart (sales_ts exact_fsum (rows (daily_df 21))) (pd_date_range (to_datetime 17020) 30)
       (forecast \<lparr> level = 1, trend = 0 \<rparr> 30)"
    using forecast_section_fit [of exact_fsum "daily_df 21" flat_fit]
    by (simp add: daily_lengths flat_fit_def last)
  moreover have "hd (map to_datetime [17020..17049]) = to_datetime 17020"
    by (simp add: upto.simps [of 17020 17049])
  moreover have "to_datetime 17020 \<noteq> to_datetime 17021"
    by (simp add: to_datetime_def ns_per_day_def)
  ultimately show ?thesis
    by (simp add: daily_forecast_dates daily_observed length_forecast)
qed

end
